theory Spec2Isabelle
  imports Main "HOL-Library.AList" "HOL-Library.Multiset"
begin

section \<open>JavaScript strings and truthiness\<close>

text \<open>
  A JavaScript string is a sequence of code units. It is modelled by \<^typ>\<open>string\<close>, one
  \<^typ>\<open>char\<close> per code unit, which covers the code units \<open>0..255\<close> (ASCII and Latin-1).
  A value of type \<open>string | undefined | null\<close> is a \<^typ>\<open>string option\<close>.
\<close>

text \<open>JavaScript truthiness of an optional string: \<open>undefined\<close>, \<open>null\<close> and \<open>''\<close> are falsy.\<close>

definition truthy :: "string option \<Rightarrow> bool" where
  "truthy v = (case v of None \<Rightarrow> False | Some s \<Rightarrow> s \<noteq> [])"

text \<open>\<open>a || b\<close> where \<open>b\<close> is a string: the first operand if truthy, else the second.\<close>

definition or_default :: "string option \<Rightarrow> string \<Rightarrow> string" where
  "or_default a b = (case a of None \<Rightarrow> b | Some s \<Rightarrow> if s = [] then b else s)"

text \<open>\<open>a || b || null\<close> on optional strings.\<close>

definition or_null :: "string option \<Rightarrow> string option \<Rightarrow> string option" where
  "or_null a b = (if truthy a then a else if truthy b then b else None)"

text \<open>\<open>s.startsWith(pat)\<close> and \<open>s.includes(pat)\<close> (\<open>includes\<close> is a keyword of Isabelle).\<close>

fun startsWith :: "string \<Rightarrow> string \<Rightarrow> bool" where
  "startsWith s [] = True"
| "startsWith [] (p # ps) = False"
| "startsWith (c # cs) (p # ps) = (c = p \<and> startsWith cs ps)"

fun str_includes :: "string \<Rightarrow> string \<Rightarrow> bool" where
  "str_includes [] pat = (pat = [])"
| "str_includes (c # cs) pat = (startsWith (c # cs) pat \<or> str_includes cs pat)"

text \<open>
  \<open>String.prototype.toLowerCase\<close> on the code units \<open>0..255\<close>: \<open>A..Z\<close> and the Latin-1
  capitals \<open>0xC0..0xDE\<close> (without the multiplication sign \<open>0xD7\<close>) move up by 32.
\<close>

definition lowerChar :: "char \<Rightarrow> char" where
  "lowerChar c =
     (let n = (of_char c :: nat)
      in if (65 \<le> n \<and> n \<le> 90) \<or> (192 \<le> n \<and> n \<le> 222 \<and> n \<noteq> 215)
         then char_of (n + 32) else c)"

definition toLowerCase :: "string \<Rightarrow> string" where
  "toLowerCase s = map lowerChar s"

text \<open>
  \<open>String.prototype.trim\<close> removes white space and line terminators from both ends; among
  the code units \<open>0..255\<close> these are TAB, LF, VT, FF, CR, SPACE and NBSP.
\<close>

definition isWhiteSpace :: "char \<Rightarrow> bool" where
  "isWhiteSpace c = ((of_char c :: nat) \<in> {9, 10, 11, 12, 13, 32, 160})"

definition trim :: "string \<Rightarrow> string" where
  "trim s = rev (dropWhile isWhiteSpace (rev (dropWhile isWhiteSpace s)))"

section \<open>Audio service\<close>

text \<open>
  The response of the Free Dictionary API, as \<open>FreeDictionaryApiResponse[]\<close> declares it.
  The body may be missing (\<open>!data\<close>), and so may an entry's \<open>phonetics\<close>: the code guards both.
\<close>

record Phonetic =
  ph_text :: "string option"
  ph_audio :: "string option"

record ApiEntry =
  api_word :: string
  api_phonetics :: "Phonetic list option"

text \<open>The HTTP GET either fails (network error, timeout, non-2xx status) or delivers a body.\<close>

datatype api_result = ApiFailure string | ApiData "ApiEntry list option"

text \<open>The accumulator \<open>result: { us?: string; uk?: string }\<close>.\<close>

record AudioUrls =
  us :: "string option"
  uk :: "string option"

definition noAudio :: AudioUrls where
  "noAudio = \<lparr>us = None, uk = None\<rparr>"

text \<open>The body of the inner loop of \<open>fetchAudioFromFreeDictionary\<close>, for one phonetic.\<close>

definition classifyPhonetic :: "AudioUrls \<Rightarrow> Phonetic \<Rightarrow> AudioUrls" where
  "classifyPhonetic result phonetic =
     (case ph_audio phonetic of
        None \<Rightarrow> result
      | Some audioUrl \<Rightarrow>
          if audioUrl = [] then result
          else if str_includes audioUrl ''-us.mp3'' \<or> str_includes audioUrl ''/us/''
          then result\<lparr>us := Some audioUrl\<rparr>
          else if str_includes audioUrl ''-uk.mp3'' \<or> str_includes audioUrl ''/uk/''
          then result\<lparr>uk := Some audioUrl\<rparr>
          else if \<not> truthy (us result) \<and> \<not> truthy (uk result)
          then result\<lparr>us := Some audioUrl\<rparr>
          else result)"

text \<open>The outer loop body: one entry, whose phonetics are skipped when missing or empty.\<close>

definition classifyEntry :: "AudioUrls \<Rightarrow> ApiEntry \<Rightarrow> AudioUrls" where
  "classifyEntry result entry =
     (case api_phonetics entry of
        None \<Rightarrow> result
      | Some phonetics \<Rightarrow> foldl classifyPhonetic result phonetics)"

text \<open>
  \<open>fetchAudioFromFreeDictionary\<close>. The GET of the word's entry is the parameter \<open>get\<close>.
  Every failure is caught and gives \<open>{}\<close>, and so does a missing or empty body.
\<close>

definition fetchAudioFromFreeDictionary :: "(string \<Rightarrow> api_result) \<Rightarrow> string \<Rightarrow> AudioUrls" where
  "fetchAudioFromFreeDictionary get word =
     (case get word of
        ApiFailure message \<Rightarrow> noAudio
      | ApiData None \<Rightarrow> noAudio
      | ApiData (Some data) \<Rightarrow> foldl classifyEntry noAudio data)"

text \<open>
  \<open>getAudioUrl\<close>. The accent is declared \<open>'US' | 'UK'\<close>, but the lookup passes the stored
  accent string unchecked, so it is a string here.
\<close>

definition getAudioUrl :: "(string \<Rightarrow> api_result) \<Rightarrow> string \<Rightarrow> string \<Rightarrow> string option" where
  "getAudioUrl get word accent =
     (let audioUrls = fetchAudioFromFreeDictionary get word
      in if accent = ''US'' then or_null (us audioUrls) (uk audioUrls)
         else or_null (uk audioUrls) (us audioUrls))"

section \<open>Entities and the store\<close>

text \<open>
  The TypeORM entities, one record per table row. Field names are the entity's, with the
  table's letter in front where two entities share a name. Columns that no modelled
  operation reads or writes (timestamps, \<open>source\<close>, \<open>similarityScore\<close>) are left out.
\<close>

record Word =
  W_id :: nat
  W_word :: string
  W_language :: string
  W_wordNormalized :: string
  W_frequencyRank :: "int option"
  W_partOfSpeech :: "string list"

record Pronunciation =
  P_id :: nat
  P_wordId :: nat
  P_accent :: string
  P_ipa :: string
  P_audioUrl :: "string option"

record Definition =
  D_id :: nat
  D_wordId :: nat
  D_partOfSpeech :: string
  D_definitionEn :: string
  D_definitionVi :: string
  D_level :: string
  D_definitionOrder :: int

record Example =
  E_id :: nat
  E_definitionId :: nat
  E_exampleEn :: string
  E_exampleVi :: string

record WordForm =
  F_id :: nat
  F_wordId :: nat
  F_formType :: string
  F_formWord :: string

record Synonym =
  S_id :: nat
  S_wordId :: nat
  S_synonymWord :: string

text \<open>
  The store: each repository is the list of its rows in insertion order, with the next value
  of its \<open>increment\<close> primary key. Reads and the update of a \<open>text\<close> column succeed; an insert
  is refused when a value does not fit the column its entity declares.
\<close>

record store =
  wordRepository :: "Word list"
  pronunciationRepository :: "Pronunciation list"
  definitionRepository :: "Definition list"
  exampleRepository :: "Example list"
  wordFormRepository :: "WordForm list"
  synonymRepository :: "Synonym list"
  wordSeq :: nat
  pronunciationSeq :: nat
  definitionSeq :: nat
  exampleSeq :: nat
  wordFormSeq :: nat
  synonymSeq :: nat

text \<open>\<open>findOne\<close>: the first row that satisfies the \<open>where\<close> condition, or \<open>null\<close>.\<close>

definition findOne :: "('a \<Rightarrow> bool) \<Rightarrow> 'a list \<Rightarrow> 'a option" where
  "findOne cond rows = List.find cond rows"

text \<open>
  Why the store refuses a row: a string longer than the \<open>length\<close> of its column, a number
  outside a 32-bit \<open>integer\<close> column, or a second row with the value of a \<open>unique\<close> column.
  The driver throws a \<open>QueryFailedError\<close> for each.
\<close>

datatype db_error = ValueTooLong nat | IntegerOutOfRange int | UniqueViolation

definition varcharColumn :: "nat \<Rightarrow> string \<Rightarrow> db_error list" where
  "varcharColumn n v = (if length v \<le> n then [] else [ValueTooLong n])"

definition integerColumn :: "int \<Rightarrow> db_error list" where
  "integerColumn v =
     (if - 2147483648 \<le> v \<and> v \<le> 2147483647 then [] else [IntegerOutOfRange v])"

text \<open>
  What each entity declares for the columns an insert fills. Columns of type \<open>text\<close> and
  \<open>text[]\<close> take every string; \<open>examples\<close> has no other column that is written.
\<close>

definition wordRefusals :: "Word \<Rightarrow> Word list \<Rightarrow> db_error list" where
  "wordRefusals w rows =
     varcharColumn 255 (W_word w) @ varcharColumn 10 (W_language w) @
     varcharColumn 255 (W_wordNormalized w) @
     (case W_frequencyRank w of None \<Rightarrow> [] | Some rank \<Rightarrow> integerColumn rank) @
     (if W_word w \<in> set (map W_word rows) then [UniqueViolation] else [])"

definition pronunciationRefusals :: "Pronunciation \<Rightarrow> db_error list" where
  "pronunciationRefusals p = varcharColumn 10 (P_accent p)"

definition definitionRefusals :: "Definition \<Rightarrow> db_error list" where
  "definitionRefusals d =
     varcharColumn 50 (D_partOfSpeech d) @ varcharColumn 20 (D_level d) @
     integerColumn (D_definitionOrder d)"

definition wordFormRefusals :: "WordForm \<Rightarrow> db_error list" where
  "wordFormRefusals f = varcharColumn 50 (F_formType f) @ varcharColumn 255 (F_formWord f)"

definition synonymRefusals :: "Synonym \<Rightarrow> db_error list" where
  "synonymRefusals y = varcharColumn 255 (S_synonymWord y)"

text \<open>
  \<open>save\<close> of a new row: with no refusal the store is the one given, with the row in it;
  otherwise the first refusal is thrown and the store stays as it was.
\<close>

definition save :: "db_error list \<Rightarrow> store \<Rightarrow> db_error + store" where
  "save refusals inserted = (case refusals of [] \<Rightarrow> Inr inserted | e # es \<Rightarrow> Inl e)"

section \<open>Dictionary service: lookup\<close>

text \<open>The response of a store hit, \<open>LookupWordResponseDto\<close> and its parts.\<close>

record PronunciationDto =
  dto_accent :: string
  dto_ipa :: string
  dto_audio_url :: "string option"

record ExampleDto =
  dto_en :: string
  dto_vi :: string

record DefinitionDto =
  dto_pos :: string
  dto_definition_en :: string
  dto_definition_vi :: string
  dto_level :: string
  dto_examples :: "ExampleDto list"

record LookupWordResponseDto =
  dto_word :: string
  dto_pronunciations :: "PronunciationDto list"
  dto_definitions :: "DefinitionDto list"
  dto_word_forms :: "(string \<times> string) list option"
  dto_synonyms :: "string list option"
  dto_frequency_rank :: "int option"

text \<open>
  What \<open>lookupWord\<close> resolves to: the assembled response of a store hit, or whatever
  \<open>JSON.parse\<close> made of the completion (no schema is checked, so it is a value of the
  parser's type \<open>'j\<close>).
\<close>

datatype 'j lookup_result = FromStore LookupWordResponseDto | FromLLM 'j

text \<open>
  Exceptions: a Nest \<open>HttpException\<close> with its message and status, or any other error
  (\<open>TypeError\<close>, \<open>SyntaxError\<close>, an Axios error), of which the code reads the message only.
\<close>

datatype error = HttpException string nat | Error string

text \<open>The POST to the completion endpoint fails or delivers \<open>choices\<close>, here their texts.\<close>

datatype llm_result = LlmFailure string | LlmChoices "string list"

text \<open>
  The collaborators of the service. \<open>JSON_parse\<close> returns the parsed value or the message
  of its \<open>SyntaxError\<close>. The two HTTP calls get the number of requests made before, so that
  a service may answer the same request differently each time. The completion request is a
  fixed template around the word (with constant model, temperature 0.3, 1500 tokens and
  stop sequences), so the word stands for the request.
\<close>

record 'j env =
  JSON_parse :: "string \<Rightarrow> string + 'j"
  httpPost :: "nat \<Rightarrow> string \<Rightarrow> llm_result"
  httpGet :: "nat \<Rightarrow> string \<Rightarrow> api_result"

text \<open>The state a lookup runs in: the store and the requests sent so far to each service.\<close>

record state =
  db :: store
  llmRequests :: "string list"
  audioRequests :: "string list"

text \<open>\<open>pronunciationRepository.update(id, { audioUrl })\<close>.\<close>

definition updateAudioUrl :: "nat \<Rightarrow> string option \<Rightarrow> store \<Rightarrow> store" where
  "updateAudioUrl ident audioUrl s =
     s\<lparr>pronunciationRepository :=
         map (\<lambda>p. if P_id p = ident then p\<lparr>P_audioUrl := audioUrl\<rparr> else p)
           (pronunciationRepository s)\<rparr>"

text \<open>
  The callback mapped over \<open>wordEntity.pronunciations\<close>. \<open>Promise.all\<close> starts the
  callbacks in list order; the model runs them one after the other in that order.
\<close>

definition enrichPronunciation ::
  "'j env \<Rightarrow> string \<Rightarrow> Pronunciation \<Rightarrow> state \<Rightarrow> PronunciationDto \<times> state" where
  "enrichPronunciation env word p st =
     (if \<not> truthy (P_audioUrl p) then
        (let audioUrl = getAudioUrl (httpGet env (length (audioRequests st))) word (P_accent p);
             st1 = st\<lparr>audioRequests := audioRequests st @ [word]\<rparr>
         in if truthy audioUrl
            then (\<lparr>dto_accent = P_accent p, dto_ipa = P_ipa p, dto_audio_url = audioUrl\<rparr>,
                  st1\<lparr>db := updateAudioUrl (P_id p) audioUrl (db st1)\<rparr>)
            else (\<lparr>dto_accent = P_accent p, dto_ipa = P_ipa p, dto_audio_url = P_audioUrl p\<rparr>,
                  st1))
      else (\<lparr>dto_accent = P_accent p, dto_ipa = P_ipa p, dto_audio_url = P_audioUrl p\<rparr>, st))"

fun enrichPronunciations ::
  "'j env \<Rightarrow> string \<Rightarrow> Pronunciation list \<Rightarrow> state \<Rightarrow> PronunciationDto list \<times> state" where
  "enrichPronunciations env word [] st = ([], st)"
| "enrichPronunciations env word (p # ps) st =
     (let (d, st1) = enrichPronunciation env word p st;
          (ds, st2) = enrichPronunciations env word ps st1
      in (d # ds, st2))"

text \<open>The relations loaded with the word: the rows that refer to it, in table order.\<close>

definition pronunciationsOf :: "store \<Rightarrow> Word \<Rightarrow> Pronunciation list" where
  "pronunciationsOf s w = filter (\<lambda>p. P_wordId p = W_id w) (pronunciationRepository s)"

definition definitionsOf :: "store \<Rightarrow> Word \<Rightarrow> Definition list" where
  "definitionsOf s w = filter (\<lambda>d. D_wordId d = W_id w) (definitionRepository s)"

definition examplesOf :: "store \<Rightarrow> Definition \<Rightarrow> Example list" where
  "examplesOf s d = filter (\<lambda>e. E_definitionId e = D_id d) (exampleRepository s)"

definition wordFormsOf :: "store \<Rightarrow> Word \<Rightarrow> WordForm list" where
  "wordFormsOf s w = filter (\<lambda>f. F_wordId f = W_id w) (wordFormRepository s)"

definition synonymsOf :: "store \<Rightarrow> Word \<Rightarrow> Synonym list" where
  "synonymsOf s w = filter (\<lambda>y. S_wordId y = W_id w) (synonymRepository s)"

text \<open>One element of the \<open>definitions\<close> array of the response.\<close>

definition definitionDto :: "store \<Rightarrow> Definition \<Rightarrow> DefinitionDto" where
  "definitionDto s def =
     \<lparr>dto_pos = D_partOfSpeech def,
      dto_definition_en = D_definitionEn def,
      dto_definition_vi = D_definitionVi def,
      dto_level = D_level def,
      dto_examples =
        map (\<lambda>ex. \<lparr>dto_en = E_exampleEn ex, dto_vi = E_exampleVi ex\<rparr>) (examplesOf s def)\<rparr>"

text \<open>
  \<open>findWordInDatabase\<close>. \<open>Array.prototype.sort\<close> with the comparator
  \<open>a.definitionOrder - b.definitionOrder\<close> is a stable sort on that key, \<^const>\<open>sort_key\<close>.
  \<open>wordFormsObj\<close> is an object, here the list of its entries in the order of their first
  assignment: assigning a key again keeps its place and replaces its value. (JavaScript
  enumerates integer-like keys first and ignores an assignment to \<open>__proto__\<close>; the list
  does not render that.) The relations are the rows in table order, the order the query,
  which has no \<open>ORDER BY\<close>, is taken to return.
\<close>

definition findWordInDatabase ::
  "'j env \<Rightarrow> string \<Rightarrow> state \<Rightarrow> LookupWordResponseDto option \<times> state" where
  "findWordInDatabase env word st =
     (case findOne (\<lambda>w. W_word w = word \<or> W_wordNormalized w = word) (wordRepository (db st)) of
        None \<Rightarrow> (None, st)
      | Some wordEntity \<Rightarrow>
          (let (pronunciationsWithAudio, st1) =
                 enrichPronunciations env word (pronunciationsOf (db st) wordEntity) st;
               synonyms = synonymsOf (db st1) wordEntity;
               wordFormsObj =
                 foldl (\<lambda>obj form. AList.update (F_formType form) (F_formWord form) obj) []
                   (wordFormsOf (db st) wordEntity)
           in (Some
                 \<lparr>dto_word = W_word wordEntity,
                  dto_pronunciations = pronunciationsWithAudio,
                  dto_definitions =
                    map (definitionDto (db st))
                      (sort_key D_definitionOrder (definitionsOf (db st) wordEntity)),
                  dto_word_forms = (if wordFormsObj \<noteq> [] then Some wordFormsObj else None),
                  dto_synonyms =
                    (if synonyms \<noteq> [] then Some (map S_synonymWord synonyms) else None),
                  dto_frequency_rank = W_frequencyRank wordEntity\<rparr>,
               st1)))"

text \<open>
  \<open>generatedText.match(/\{[\s\S]*\}/)\<close>. The matcher tries each start position from the
  left; at a \<open>{\<close> the star takes the whole rest and gives characters back until a \<open>}\<close>
  follows (\<open>closing\<close>), and with no \<open>}\<close> in the rest the next start position is tried.
\<close>

definition closing :: "string \<Rightarrow> string option" where
  "closing rest =
     (case dropWhile (\<lambda>c. c \<noteq> CHR ''}'') (rev rest) of
        [] \<Rightarrow> None
      | r # rs \<Rightarrow> Some (rev (r # rs)))"

fun jsonMatch :: "string \<Rightarrow> string option" where
  "jsonMatch [] = None"
| "jsonMatch (c # cs) =
     (if c = CHR ''{''
      then (case closing cs of Some m \<Rightarrow> Some (c # m) | None \<Rightarrow> jsonMatch cs)
      else jsonMatch cs)"

text \<open>
  The handler shared by \<open>lookupWord\<close> and \<open>generateWordWithLLM\<close>: an \<open>HttpException\<close> is
  thrown again, anything else is wrapped in one with status 500.
\<close>

definition rethrow :: "string \<Rightarrow> error \<Rightarrow> error" where
  "rethrow prefix e =
     (case e of
        HttpException message status \<Rightarrow> HttpException message status
      | Error message \<Rightarrow> HttpException (prefix @ message) 500)"

text \<open>The \<open>TypeError\<close> of \<open>choices[0].text\<close> on an empty \<open>choices\<close> (the message is V8's).\<close>

definition noChoiceMessage :: string where
  "noChoiceMessage = ''Cannot read properties of undefined (reading 'text')''"

text \<open>The \<open>try\<close> block of \<open>generateWordWithLLM\<close> from the response of the POST on.\<close>

definition parseCompletion :: "'j env \<Rightarrow> llm_result \<Rightarrow> error + 'j" where
  "parseCompletion env response =
     (case response of
        LlmFailure message \<Rightarrow> Inl (Error message)
      | LlmChoices [] \<Rightarrow> Inl (Error noChoiceMessage)
      | LlmChoices (text # others) \<Rightarrow>
          (let generatedText = trim text
           in case jsonMatch generatedText of
                None \<Rightarrow> Inl (HttpException ''Failed to parse dictionary data'' 500)
              | Some jsonText \<Rightarrow>
                  (case JSON_parse env jsonText of
                     Inl message \<Rightarrow> Inl (Error message)
                   | Inr dictionaryData \<Rightarrow> Inr dictionaryData)))"

definition generateWordWithLLM :: "'j env \<Rightarrow> string \<Rightarrow> state \<Rightarrow> (error + 'j) \<times> state" where
  "generateWordWithLLM env word st =
     (let response = httpPost env (length (llmRequests st)) word;
          st1 = st\<lparr>llmRequests := llmRequests st @ [word]\<rparr>
      in (case parseCompletion env response of
            Inl e \<Rightarrow> Inl (rethrow ''Failed to generate word data: '' e)
          | Inr dictionaryData \<Rightarrow> Inr dictionaryData,
          st1))"

definition lookupWord :: "'j env \<Rightarrow> string \<Rightarrow> state \<Rightarrow> (error + 'j lookup_result) \<times> state" where
  "lookupWord env word st =
     (let normalizedWord = trim (toLowerCase word)
      in case findWordInDatabase env normalizedWord st of
           (Some dbWord, st1) \<Rightarrow> (Inr (FromStore dbWord), st1)
         | (None, st1) \<Rightarrow>
             (case generateWordWithLLM env normalizedWord st1 of
                (Inl e, st2) \<Rightarrow> (Inl (rethrow ''Failed to lookup word: '' e), st2)
              | (Inr dictionaryData, st2) \<Rightarrow> (Inr (FromLLM dictionaryData), st2)))"

section \<open>Dictionary service: import\<close>

text \<open>
  The payload of \<open>importWordData\<close> (\<open>data: any\<close>), with the shape the import script builds;
  a property that may be missing is an option. \<open>word_forms\<close> is an object, here the list of
  its entries as \<open>Object.entries\<close> enumerates them.
\<close>

record PronunciationData =
  in_accent :: string
  in_ipa :: string
  in_audio_url :: "string option"

record ExampleData =
  in_en :: string
  in_vi :: string

record DefinitionData =
  in_pos :: string
  in_definition_en :: string
  in_definition_vi :: string
  in_level :: "string option"
  in_examples :: "ExampleData list option"

record ImportData =
  in_word :: string
  in_word_normalized :: "string option"
  in_language :: "string option"
  in_frequency_rank :: "int option"
  in_pronunciations :: "PronunciationData list option"
  in_definitions :: "DefinitionData list option"
  in_synonyms :: "string list option"
  in_word_forms :: "(string \<times> string) list option"

record ImportResult =
  success :: bool
  res_word :: string

text \<open>The first step: the row of the literal word is looked up, and created when missing.\<close>

definition createWord :: "ImportData \<Rightarrow> nat \<Rightarrow> Word" where
  "createWord data ident =
     \<lparr>W_id = ident,
      W_word = in_word data,
      W_language = or_default (in_language data) ''en'',
      W_wordNormalized = or_default (in_word_normalized data) (toLowerCase (in_word data)),
      W_frequencyRank = in_frequency_rank data,
      W_partOfSpeech =
        (case in_definitions data of None \<Rightarrow> [] | Some definitions \<Rightarrow> map in_pos definitions)\<rparr>"

definition findOrCreateWord :: "ImportData \<Rightarrow> store \<Rightarrow> db_error + Word \<times> store" where
  "findOrCreateWord data s =
     (case findOne (\<lambda>w. W_word w = in_word data) (wordRepository s) of
        Some wordEntity \<Rightarrow> Inr (wordEntity, s)
      | None \<Rightarrow>
          (let wordEntity = createWord data (wordSeq s)
           in case save (wordRefusals wordEntity (wordRepository s))
                     (s\<lparr>wordRepository := wordRepository s @ [wordEntity],
                       wordSeq := Suc (wordSeq s)\<rparr>) of
                Inl e \<Rightarrow> Inl e
              | Inr s0 \<Rightarrow> Inr (wordEntity, s0)))"

text \<open>The body of the loop over the pronunciations.\<close>

definition importPronunciation :: "nat \<Rightarrow> store \<Rightarrow> PronunciationData \<Rightarrow> db_error + store" where
  "importPronunciation wordId s pron =
     (case findOne (\<lambda>p. P_wordId p = wordId \<and> P_accent p = in_accent pron)
             (pronunciationRepository s) of
        Some existing \<Rightarrow> Inr s
      | None \<Rightarrow>
          (let row = \<lparr>P_id = pronunciationSeq s, P_wordId = wordId, P_accent = in_accent pron,
                      P_ipa = in_ipa pron, P_audioUrl = in_audio_url pron\<rparr>
           in save (pronunciationRefusals row)
                (s\<lparr>pronunciationRepository := pronunciationRepository s @ [row],
                  pronunciationSeq := Suc (pronunciationSeq s)\<rparr>)))"

text \<open>
  The body of the loop over the examples of one definition; both columns it fills are
  \<open>text\<close>, so the row is never refused.
\<close>

definition importExample :: "nat \<Rightarrow> store \<Rightarrow> ExampleData \<Rightarrow> store" where
  "importExample definitionId s ex =
     s\<lparr>exampleRepository := exampleRepository s @
          [\<lparr>E_id = exampleSeq s, E_definitionId = definitionId,
            E_exampleEn = in_en ex, E_exampleVi = in_vi ex\<rparr>],
       exampleSeq := Suc (exampleSeq s)\<rparr>"

text \<open>The row created for \<open>definitions[i]\<close>.\<close>

definition createDefinition :: "nat \<Rightarrow> nat \<Rightarrow> nat \<Rightarrow> DefinitionData \<Rightarrow> Definition" where
  "createDefinition ident wordId i def =
     \<lparr>D_id = ident, D_wordId = wordId, D_partOfSpeech = in_pos def,
      D_definitionEn = in_definition_en def, D_definitionVi = in_definition_vi def,
      D_level = or_default (in_level def) ''intermediate'',
      D_definitionOrder = int i + 1\<rparr>"

text \<open>The body of the loop over the definitions, at index \<open>i\<close>.\<close>

definition importDefinition :: "nat \<Rightarrow> store \<Rightarrow> nat \<times> DefinitionData \<Rightarrow> db_error + store" where
  "importDefinition wordId s idef =
     (let (i, def) = idef;
          defEntity = createDefinition (definitionSeq s) wordId i def
      in case save (definitionRefusals defEntity)
                (s\<lparr>definitionRepository := definitionRepository s @ [defEntity],
                  definitionSeq := Suc (definitionSeq s)\<rparr>) of
           Inl e \<Rightarrow> Inl e
         | Inr s1 \<Rightarrow>
             (case in_examples def of
                None \<Rightarrow> Inr s1
              | Some examples \<Rightarrow> Inr (foldl (importExample (D_id defEntity)) s1 examples)))"

text \<open>The body of the loop over the entries of \<open>word_forms\<close>.\<close>

definition importWordForm :: "nat \<Rightarrow> store \<Rightarrow> string \<times> string \<Rightarrow> db_error + store" where
  "importWordForm wordId s form =
     (let (formType, formWord) = form
      in case findOne (\<lambda>f. F_wordId f = wordId \<and> F_formType f = formType)
                (wordFormRepository s) of
           Some existing \<Rightarrow> Inr s
         | None \<Rightarrow>
             (let row = \<lparr>F_id = wordFormSeq s, F_wordId = wordId, F_formType = formType,
                         F_formWord = formWord\<rparr>
              in save (wordFormRefusals row)
                   (s\<lparr>wordFormRepository := wordFormRepository s @ [row],
                     wordFormSeq := Suc (wordFormSeq s)\<rparr>)))"

text \<open>The body of the loop over the synonyms.\<close>

definition importSynonym :: "nat \<Rightarrow> store \<Rightarrow> string \<Rightarrow> db_error + store" where
  "importSynonym wordId s syn =
     (case findOne (\<lambda>y. S_wordId y = wordId \<and> S_synonymWord y = syn) (synonymRepository s) of
        Some existing \<Rightarrow> Inr s
      | None \<Rightarrow>
          (let row = \<lparr>S_id = synonymSeq s, S_wordId = wordId, S_synonymWord = syn\<rparr>
           in save (synonymRefusals row)
                (s\<lparr>synonymRepository := synonymRepository s @ [row],
                  synonymSeq := Suc (synonymSeq s)\<rparr>)))"

text \<open>
  A \<open>for\<close> loop whose body may throw: the error leaves the loop with the store as the
  iterations before it left it (no transaction wraps the import).
\<close>

fun forEach ::
  "(store \<Rightarrow> 'a \<Rightarrow> db_error + store) \<Rightarrow> store \<Rightarrow> 'a list \<Rightarrow> db_error \<times> store + store" where
  "forEach body s [] = Inr s"
| "forEach body s (x # xs) =
     (case body s x of
        Inl e \<Rightarrow> Inl (e, s)
      | Inr s1 \<Rightarrow> forEach body s1 xs)"

text \<open>The four loops; a missing list is skipped, and an empty one runs no iteration.\<close>

definition importPronunciations ::
  "nat \<Rightarrow> PronunciationData list option \<Rightarrow> store \<Rightarrow> db_error \<times> store + store" where
  "importPronunciations wordId pronunciations s =
     (case pronunciations of
        None \<Rightarrow> Inr s
      | Some prons \<Rightarrow> forEach (importPronunciation wordId) s prons)"

definition importDefinitions ::
  "nat \<Rightarrow> DefinitionData list option \<Rightarrow> store \<Rightarrow> db_error \<times> store + store" where
  "importDefinitions wordId definitions s =
     (case definitions of
        None \<Rightarrow> Inr s
      | Some defs \<Rightarrow> forEach (importDefinition wordId) s (enumerate 0 defs))"

definition importWordForms ::
  "nat \<Rightarrow> (string \<times> string) list option \<Rightarrow> store \<Rightarrow> db_error \<times> store + store" where
  "importWordForms wordId word_forms s =
     (case word_forms of
        None \<Rightarrow> Inr s
      | Some forms \<Rightarrow> forEach (importWordForm wordId) s forms)"

definition importSynonyms ::
  "nat \<Rightarrow> string list option \<Rightarrow> store \<Rightarrow> db_error \<times> store + store" where
  "importSynonyms wordId synonyms s =
     (case synonyms of
        None \<Rightarrow> Inr s
      | Some syns \<Rightarrow> forEach (importSynonym wordId) s syns)"

text \<open>One statement after another inside the \<open>try\<close>: the next runs unless one has thrown.\<close>

definition andThen ::
  "db_error \<times> store + store \<Rightarrow> (store \<Rightarrow> db_error \<times> store + store) \<Rightarrow> db_error \<times> store + store" where
  "andThen r next = (case r of Inl thrown \<Rightarrow> Inl thrown | Inr s \<Rightarrow> next s)"

text \<open>
  The \<open>catch\<close> of \<open>importWordData\<close>: every error becomes an \<open>HttpException\<close> of status 500
  that carries its message. The text of a \<open>QueryFailedError\<close> is the driver's, the parameter
  \<open>message\<close>.
\<close>

definition importFailed :: "(db_error \<Rightarrow> string) \<Rightarrow> db_error \<Rightarrow> error" where
  "importFailed message e = HttpException (''Failed to import word: '' @ message e) 500"

text \<open>
  \<open>importWordData\<close>. It returns the success object or throws, and in both cases leaves the
  store with every row saved before.
\<close>

definition importWordData ::
  "(db_error \<Rightarrow> string) \<Rightarrow> ImportData \<Rightarrow> store \<Rightarrow> (error + ImportResult) \<times> store" where
  "importWordData message data s =
     (case findOrCreateWord data s of
        Inl e \<Rightarrow> (Inl (importFailed message e), s)
      | Inr (wordEntity, s0) \<Rightarrow>
          (case andThen (andThen (andThen
                  (importPronunciations (W_id wordEntity) (in_pronunciations data) s0)
                  (importDefinitions (W_id wordEntity) (in_definitions data)))
                  (importWordForms (W_id wordEntity) (in_word_forms data)))
                  (importSynonyms (W_id wordEntity) (in_synonyms data)) of
             Inl (e, s') \<Rightarrow> (Inl (importFailed message e), s')
           | Inr s4 \<Rightarrow> (Inr \<lparr>success = True, res_word = in_word data\<rparr>, s4)))"

section \<open>Vocabulary of the statements and example data\<close>

text \<open>
  A bucket never holds the empty string: only a truthy \<open>phonetic.audio\<close> is stored. This is
  the invariant of both loops of \<open>fetchAudioFromFreeDictionary\<close>.
\<close>

definition bucketsOk :: "AudioUrls \<Rightarrow> bool" where
  "bucketsOk r = (us r \<noteq> Some [] \<and> uk r \<noteq> Some [])"

text \<open>The response element of a stored pronunciation whose audio URL is left as stored.\<close>

definition storedDto :: "Pronunciation \<Rightarrow> PronunciationDto" where
  "storedDto p = \<lparr>dto_accent = P_accent p, dto_ipa = P_ipa p, dto_audio_url = P_audioUrl p\<rparr>"

text \<open>The lists of a payload, empty when the property is missing.\<close>

definition payloadPronunciations :: "ImportData \<Rightarrow> PronunciationData list" where
  "payloadPronunciations data =
     (case in_pronunciations data of None \<Rightarrow> [] | Some prons \<Rightarrow> prons)"

definition payloadDefinitions :: "ImportData \<Rightarrow> DefinitionData list" where
  "payloadDefinitions data = (case in_definitions data of None \<Rightarrow> [] | Some defs \<Rightarrow> defs)"

definition payloadWordForms :: "ImportData \<Rightarrow> (string \<times> string) list" where
  "payloadWordForms data = (case in_word_forms data of None \<Rightarrow> [] | Some forms \<Rightarrow> forms)"

definition payloadSynonyms :: "ImportData \<Rightarrow> string list" where
  "payloadSynonyms data = (case in_synonyms data of None \<Rightarrow> [] | Some syns \<Rightarrow> syns)"

text \<open>
  The values of a payload fit the declared columns: \<open>wordFits\<close> for the row of the word
  itself, \<open>fitsColumns\<close> for that row and every row of the four loops. The order field of the
  last definition is the number of definitions, so that number is within \<open>integer\<close> too.
\<close>

definition wordFits :: "ImportData \<Rightarrow> bool" where
  "wordFits data =
     (length (in_word data) \<le> 255 \<and>
      length (or_default (in_language data) ''en'') \<le> 10 \<and>
      length (or_default (in_word_normalized data) (toLowerCase (in_word data))) \<le> 255 \<and>
      (case in_frequency_rank data of
         None \<Rightarrow> True
       | Some rank \<Rightarrow> - 2147483648 \<le> rank \<and> rank \<le> 2147483647))"

definition fitsColumns :: "ImportData \<Rightarrow> bool" where
  "fitsColumns data =
     (wordFits data \<and>
      list_all (\<lambda>p. length (in_accent p) \<le> 10) (payloadPronunciations data) \<and>
      list_all (\<lambda>d. length (in_pos d) \<le> 50 \<and>
                     length (or_default (in_level d) ''intermediate'') \<le> 20)
        (payloadDefinitions data) \<and>
      length (payloadDefinitions data) \<le> 2147483647 \<and>
      list_all (\<lambda>(formType, formWord). length formType \<le> 50 \<and> length formWord \<le> 255)
        (payloadWordForms data) \<and>
      list_all (\<lambda>syn. length syn \<le> 255) (payloadSynonyms data))"

text \<open>
  The rows one run of the definitions loop appends: primary keys from \<open>ident\<close> on, the
  order field from \<open>i + 1\<close> on.
\<close>

fun definitionBatch :: "nat \<Rightarrow> nat \<Rightarrow> nat \<Rightarrow> DefinitionData list \<Rightarrow> Definition list" where
  "definitionBatch ident wordId i [] = []"
| "definitionBatch ident wordId i (def # defs) =
     createDefinition ident wordId i def # definitionBatch (Suc ident) wordId (Suc i) defs"

text \<open>What the three check-before-insert lookups of the import find.\<close>

definition hasPronunciation :: "nat \<Rightarrow> store \<Rightarrow> string \<Rightarrow> bool" where
  "hasPronunciation wid s accent =
     (\<exists>p \<in> set (pronunciationRepository s). P_wordId p = wid \<and> P_accent p = accent)"

definition hasWordForm :: "nat \<Rightarrow> store \<Rightarrow> string \<Rightarrow> bool" where
  "hasWordForm wid s formType =
     (\<exists>f \<in> set (wordFormRepository s). F_wordId f = wid \<and> F_formType f = formType)"

definition hasSynonym :: "nat \<Rightarrow> store \<Rightarrow> string \<Rightarrow> bool" where
  "hasSynonym wid s syn =
     (\<exists>y \<in> set (synonymRepository s). S_wordId y = wid \<and> S_synonymWord y = syn)"

text \<open>The store an import step leaves behind, whether it returned or threw.\<close>

definition finalStore :: "db_error \<times> store + store \<Rightarrow> store" where
  "finalStore r = (case r of Inl (e, s) \<Rightarrow> s | Inr s \<Rightarrow> s)"

text \<open>
  Example collaborators. The stand-in for \<open>JSON.parse\<close> accepts every text and returns it,
  so an example shows which text reaches the parser; the phonetic API always times out.
  \<open>echoEnv\<close> completes with an object between two lines of prose, \<open>proseEnv\<close> with prose only.
\<close>

definition echoEnv :: "string env" where
  \<open>echoEnv =
     \<lparr>JSON_parse = (\<lambda>jsonText. Inr jsonText),
      httpPost = (\<lambda>n word. LlmChoices [''Sure, here: {"word":"x"} Hope that helps'']),
      httpGet = (\<lambda>n word. ApiFailure ''timeout of 5000ms exceeded'')\<rparr>\<close>

definition proseEnv :: "string env" where
  "proseEnv =
     \<lparr>JSON_parse = (\<lambda>jsonText. Inr jsonText),
      httpPost = (\<lambda>n word. LlmChoices [''I do not know that word.'']),
      httpGet = (\<lambda>n word. ApiFailure ''timeout of 5000ms exceeded'')\<rparr>"

text \<open>
  Example stores: an empty one, and one that holds \<open>hello\<close> with two pronunciations without
  audio and two definitions stored against their order.
\<close>

definition emptyStore :: store where
  "emptyStore =
     \<lparr>wordRepository = [], pronunciationRepository = [], definitionRepository = [],
      exampleRepository = [], wordFormRepository = [], synonymRepository = [],
      wordSeq = 1, pronunciationSeq = 1, definitionSeq = 1, exampleSeq = 1, wordFormSeq = 1,
      synonymSeq = 1\<rparr>"

definition emptyState :: state where
  "emptyState = \<lparr>db = emptyStore, llmRequests = [], audioRequests = []\<rparr>"

definition helloWord :: Word where
  "helloWord =
     \<lparr>W_id = 1, W_word = ''hello'', W_language = ''en'', W_wordNormalized = ''hello'',
      W_frequencyRank = Some 150, W_partOfSpeech = [''interjection'', ''noun'']\<rparr>"

definition helloStore :: store where
  "helloStore =
     \<lparr>wordRepository = [helloWord],
      pronunciationRepository =
        [\<lparr>P_id = 1, P_wordId = 1, P_accent = ''US'', P_ipa = ''/helou/'', P_audioUrl = None\<rparr>,
         \<lparr>P_id = 2, P_wordId = 1, P_accent = ''UK'', P_ipa = ''/heleu/'', P_audioUrl = None\<rparr>],
      definitionRepository =
        [\<lparr>D_id = 1, D_wordId = 1, D_partOfSpeech = ''noun'', D_definitionEn = ''an utterance of hello'',
          D_definitionVi = ''loi chao'', D_level = ''intermediate'', D_definitionOrder = 2\<rparr>,
         \<lparr>D_id = 2, D_wordId = 1, D_partOfSpeech = ''interjection'',
          D_definitionEn = ''used as a greeting'', D_definitionVi = ''xin chao'',
          D_level = ''beginner'', D_definitionOrder = 1\<rparr>],
      exampleRepository =
        [\<lparr>E_id = 1, E_definitionId = 2, E_exampleEn = ''Hello! How are you?'',
          E_exampleVi = ''Xin chao! Ban khoe khong?''\<rparr>],
      wordFormRepository =
        [\<lparr>F_id = 1, F_wordId = 1, F_formType = ''plural'', F_formWord = ''hellos''\<rparr>],
      synonymRepository = [\<lparr>S_id = 1, S_wordId = 1, S_synonymWord = ''hi''\<rparr>],
      wordSeq = 2, pronunciationSeq = 3, definitionSeq = 3, exampleSeq = 2, wordFormSeq = 2,
      synonymSeq = 2\<rparr>"

definition helloState :: state where
  "helloState = \<lparr>db = helloStore, llmRequests = [], audioRequests = []\<rparr>"

text \<open>An example payload: two of its three definitions share a part of speech.\<close>

definition runData :: ImportData where
  "runData =
     \<lparr>in_word = ''Run'', in_word_normalized = None, in_language = None,
      in_frequency_rank = Some 200,
      in_pronunciations =
        Some [\<lparr>in_accent = ''US'', in_ipa = ''/ran/'', in_audio_url = None\<rparr>],
      in_definitions =
        Some [\<lparr>in_pos = ''verb'', in_definition_en = ''move at a speed faster than a walk'',
               in_definition_vi = ''chay'', in_level = None,
               in_examples = Some [\<lparr>in_en = ''She runs every day.'', in_vi = ''Co ay chay moi ngay.''\<rparr>]\<rparr>,
              \<lparr>in_pos = ''verb'', in_definition_en = ''be in charge of'',
               in_definition_vi = ''dieu hanh'', in_level = Some ''advanced'', in_examples = None\<rparr>,
              \<lparr>in_pos = ''noun'', in_definition_en = ''an act of running'',
               in_definition_vi = ''cuoc chay'', in_level = Some '''', in_examples = Some []\<rparr>],
      in_synonyms = Some [''sprint'', ''jog''],
      in_word_forms = Some [(''past'', ''ran''), (''plural'', ''runs'')]\<rparr>"

text \<open>
  An example payload whose only pronunciation has an accent of eleven characters, and a
  stand-in for the driver's error messages.
\<close>

definition longAccentData :: ImportData where
  "longAccentData =
     \<lparr>in_word = ''Run'', in_word_normalized = None, in_language = None,
      in_frequency_rank = None,
      in_pronunciations =
        Some [\<lparr>in_accent = ''US-Southern'', in_ipa = ''/ran/'', in_audio_url = None\<rparr>],
      in_definitions =
        Some [\<lparr>in_pos = ''verb'', in_definition_en = ''move at a speed faster than a walk'',
               in_definition_vi = ''chay'', in_level = None, in_examples = None\<rparr>],
      in_synonyms = None,
      in_word_forms = None\<rparr>"

definition driverMessage :: "db_error \<Rightarrow> string" where
  "driverMessage e =
     (case e of
        ValueTooLong n \<Rightarrow> ''value too long for type character varying''
      | IntegerOutOfRange v \<Rightarrow> ''value is out of range for type integer''
      | UniqueViolation \<Rightarrow> ''duplicate key value violates unique constraint'')"

section \<open>Properties of the audio service\<close>

lemma bucketsOk_noAudio: "bucketsOk noAudio"
  by (simp add: bucketsOk_def noAudio_def)

lemma bucketsOk_classifyPhonetic: "bucketsOk r \<Longrightarrow> bucketsOk (classifyPhonetic r ph)"
  by (auto simp: bucketsOk_def classifyPhonetic_def split: option.splits)

lemma bucketsOk_phonetics: "bucketsOk r \<Longrightarrow> bucketsOk (foldl classifyPhonetic r phs)"
  by (induction phs arbitrary: r) (simp_all add: bucketsOk_classifyPhonetic)

lemma bucketsOk_classifyEntry: "bucketsOk r \<Longrightarrow> bucketsOk (classifyEntry r e)"
  by (simp add: classifyEntry_def bucketsOk_phonetics split: option.splits)

lemma bucketsOk_entries: "bucketsOk r \<Longrightarrow> bucketsOk (foldl classifyEntry r es)"
  by (induction es arbitrary: r) (simp_all add: bucketsOk_classifyEntry)

lemma bucketsOk_fetch: "bucketsOk (fetchAudioFromFreeDictionary get word)"
  by (simp add: fetchAudioFromFreeDictionary_def bucketsOk_noAudio bucketsOk_entries
      split: api_result.splits option.splits)

lemma or_null_present:
  "a \<noteq> Some [] \<Longrightarrow> b \<noteq> Some [] \<Longrightarrow>
   or_null a b = (case a of Some url \<Rightarrow> Some url | None \<Rightarrow> b)"
  by (auto simp: or_null_def truthy_def split: option.splits)

text \<open>
  Claim C5. For every word and every answer of the phonetic API, a request for the accent
  \<open>US\<close> resolves to the URL of the US bucket when there is one, else to the URL of the UK
  bucket, else to nothing; a request for any other accent, \<open>UK\<close> among them, prefers the UK
  bucket and falls back to the US bucket.
\<close>

theorem getAudioUrl_preference:
  "getAudioUrl get word accent =
     (let r = fetchAudioFromFreeDictionary get word
      in if accent = ''US''
         then (case us r of Some url \<Rightarrow> Some url | None \<Rightarrow> uk r)
         else (case uk r of Some url \<Rightarrow> Some url | None \<Rightarrow> us r))"
  using bucketsOk_fetch [of get word]
  by (simp add: getAudioUrl_def Let_def bucketsOk_def or_null_present)

text \<open>
  Claim C6 fails as stated: the branches are tried in order, so a URL that contains a UK
  pattern and also a US pattern goes to the US bucket, and the UK bucket stays empty.
\<close>

theorem uk_pattern_counterexample:
  "str_includes ''https://cdn.example.com/uk/hello-us.mp3'' ''/uk/'' \<and>
   uk (classifyPhonetic noAudio
         \<lparr>ph_text = None, ph_audio = Some ''https://cdn.example.com/uk/hello-us.mp3''\<rparr>)
     \<noteq> Some ''https://cdn.example.com/uk/hello-us.mp3''"
  by (simp add: classifyPhonetic_def noAudio_def)

text \<open>
  Claim C6, amended. At every moment of the classification, that is for every state \<open>r\<close> the two
  loops reach, a non-empty audio URL is handled by the first rule that applies: with
  \<open>-us.mp3\<close> or \<open>/us/\<close> it becomes the US bucket; otherwise with \<open>-uk.mp3\<close> or \<open>/uk/\<close> it
  becomes the UK bucket; otherwise it becomes the US bucket if and only if both buckets are
  still empty, and is dropped if not.
\<close>

theorem classifyPhonetic_rule:
  assumes "r = foldl classifyPhonetic (foldl classifyEntry noAudio es) ps"
    and "audioUrl \<noteq> []"
  shows "classifyPhonetic r \<lparr>ph_text = t, ph_audio = Some audioUrl\<rparr> =
     (if str_includes audioUrl ''-us.mp3'' \<or> str_includes audioUrl ''/us/''
      then r\<lparr>us := Some audioUrl\<rparr>
      else if str_includes audioUrl ''-uk.mp3'' \<or> str_includes audioUrl ''/uk/''
      then r\<lparr>uk := Some audioUrl\<rparr>
      else if us r = None \<and> uk r = None then r\<lparr>us := Some audioUrl\<rparr>
      else r)"
proof -
  have "bucketsOk r"
    unfolding assms(1) by (intro bucketsOk_phonetics bucketsOk_entries bucketsOk_noAudio)
  then have "truthy (us r) \<longleftrightarrow> us r \<noteq> None" "truthy (uk r) \<longleftrightarrow> uk r \<noteq> None"
    by (auto simp: bucketsOk_def truthy_def split: option.splits)
  then show ?thesis
    using assms(2) by (simp add: classifyPhonetic_def)
qed

text \<open>The rule at the first URL of a response, one of the API's own UK recordings.\<close>

theorem classifyPhonetic_rule_witness:
  "classifyPhonetic noAudio
     \<lparr>ph_text = None,
      ph_audio = Some ''https://api.dictionaryapi.dev/media/pronunciations/en/hello-uk.mp3''\<rparr>
   = noAudio\<lparr>uk := Some ''https://api.dictionaryapi.dev/media/pronunciations/en/hello-uk.mp3''\<rparr>"
  using classifyPhonetic_rule [of noAudio "[]" "[]"
      "''https://api.dictionaryapi.dev/media/pronunciations/en/hello-uk.mp3''" None]
  by simp

text \<open>A failed GET resolves to no audio URL, for every accent.\<close>

lemma fetchAudio_failure:
  "get word = ApiFailure m \<Longrightarrow> fetchAudioFromFreeDictionary get word = noAudio"
  by (simp add: fetchAudioFromFreeDictionary_def)

lemma getAudioUrl_failure:
  "get word = ApiFailure m \<Longrightarrow> getAudioUrl get word accent = None"
  by (simp add: getAudioUrl_def fetchAudioFromFreeDictionary_def noAudio_def or_null_def truthy_def Let_def)

section \<open>Properties of the lookup\<close>

lemma enrichPronunciation_failure:
  assumes "\<forall>n. \<exists>m. httpGet env n word = ApiFailure m"
  shows "\<exists>st'. enrichPronunciation env word p st = (storedDto p, st') \<and> db st' = db st
           \<and> llmRequests st' = llmRequests st"
proof -
  obtain m where "httpGet env (length (audioRequests st)) word = ApiFailure m"
    using assms by blast
  then have "getAudioUrl (httpGet env (length (audioRequests st))) word (P_accent p) = None"
    by (rule getAudioUrl_failure)
  then show ?thesis
    by (simp add: enrichPronunciation_def storedDto_def Let_def truthy_def)
qed

lemma enrichPronunciations_failure:
  assumes "\<forall>n. \<exists>m. httpGet env n word = ApiFailure m"
  shows "\<exists>st'. enrichPronunciations env word ps st = (map storedDto ps, st') \<and> db st' = db st
           \<and> llmRequests st' = llmRequests st"
proof (induction ps arbitrary: st)
  case Nil
  show ?case by simp
next
  case (Cons p ps)
  obtain st1 where 1: "enrichPronunciation env word p st = (storedDto p, st1)"
    "db st1 = db st" "llmRequests st1 = llmRequests st"
    using enrichPronunciation_failure [OF assms] by blast
  obtain st2 where 2: "enrichPronunciations env word ps st1 = (map storedDto ps, st2)"
    "db st2 = db st1" "llmRequests st2 = llmRequests st1"
    using Cons.IH by blast
  show ?case using 1 2 by simp
qed

lemma lookupWord_hit:
  assumes "findOne (\<lambda>w. W_word w = trim (toLowerCase word) \<or> W_wordNormalized w = trim (toLowerCase word))
             (wordRepository (db st)) = Some wordEntity"
  shows "\<exists>dto st'. lookupWord env word st = (Inr (FromStore dto), st')
     \<and> findWordInDatabase env (trim (toLowerCase word)) st = (Some dto, st')"
  using assms
  by (simp add: lookupWord_def findWordInDatabase_def Let_def split: prod.splits)

lemma findWordInDatabase_hit_fields:
  assumes "findOne (\<lambda>w. W_word w = key \<or> W_wordNormalized w = key)
             (wordRepository (db st)) = Some wordEntity"
    and "findWordInDatabase env key st = (Some dto, st')"
  shows "dto_word dto = W_word wordEntity"
    and "dto_definitions dto = map (definitionDto (db st))
                      (sort_key D_definitionOrder (definitionsOf (db st) wordEntity))"
    and "(dto_pronunciations dto, st') = enrichPronunciations env key (pronunciationsOf (db st) wordEntity) st"
  using assms
  by (auto simp add: findWordInDatabase_def Let_def split: prod.splits)

lemma lookupWord_miss:
  assumes "findOne (\<lambda>w. W_word w = trim (toLowerCase word) \<or> W_wordNormalized w = trim (toLowerCase word))
             (wordRepository (db st)) = None"
  shows "lookupWord env word st =
     (case parseCompletion env (httpPost env (length (llmRequests st)) (trim (toLowerCase word))) of
        Inl e \<Rightarrow> Inl (rethrow ''Failed to generate word data: '' e)
      | Inr j \<Rightarrow> Inr (FromLLM j),
      st\<lparr>llmRequests := llmRequests st @ [trim (toLowerCase word)]\<rparr>)"
  using assms
  by (auto simp add: lookupWord_def findWordInDatabase_def generateWordWithLLM_def Let_def rethrow_def
      split: prod.splits sum.splits error.splits)

text \<open>
  Claim C8. A failed call of the phonetic API makes \<open>fetchAudioFromFreeDictionary\<close> return
  \<open>{}\<close> and \<open>getAudioUrl\<close> return \<open>null\<close>, for every word and accent. When every such
  call of a lookup fails and the store has the word, the lookup still returns the assembled
  response: the stored word, every stored pronunciation with its audio URL as stored, and
  a store left as it was.
\<close>

theorem audio_failure_absorbed:
  assumes "\<forall>n. \<exists>m. httpGet env n (trim (toLowerCase word)) = ApiFailure m"
    and "findOne (\<lambda>w. W_word w = trim (toLowerCase word) \<or> W_wordNormalized w = trim (toLowerCase word))
             (wordRepository (db st)) = Some wordEntity"
  shows "(\<forall>n. fetchAudioFromFreeDictionary (httpGet env n) (trim (toLowerCase word)) = noAudio) \<and>
         (\<forall>n accent. getAudioUrl (httpGet env n) (trim (toLowerCase word)) accent = None) \<and>
         (\<exists>dto st'.
            lookupWord env word st = (Inr (FromStore dto), st') \<and>
            db st' = db st \<and>
            dto_word dto = W_word wordEntity \<and>
            dto_pronunciations dto = map storedDto (pronunciationsOf (db st) wordEntity))"
proof -
  let ?key = "trim (toLowerCase word)"
  have a: "\<forall>n accent. getAudioUrl (httpGet env n) ?key accent = None"
    using assms(1) getAudioUrl_failure by metis
  have b: "\<forall>n. fetchAudioFromFreeDictionary (httpGet env n) ?key = noAudio"
    using assms(1) fetchAudio_failure by metis
  obtain dto st' where l: "lookupWord env word st = (Inr (FromStore dto), st')"
    and f: "findWordInDatabase env ?key st = (Some dto, st')"
    using lookupWord_hit [OF assms(2)] by blast
  obtain st1 where e: "enrichPronunciations env ?key (pronunciationsOf (db st) wordEntity) st =
      (map storedDto (pronunciationsOf (db st) wordEntity), st1)" "db st1 = db st"
    using enrichPronunciations_failure [OF assms(1)] by blast
  have "(dto_pronunciations dto, st') =
      enrichPronunciations env ?key (pronunciationsOf (db st) wordEntity) st"
    by (rule findWordInDatabase_hit_fields(3) [OF assms(2) f])
  then have "dto_pronunciations dto = map storedDto (pronunciationsOf (db st) wordEntity)" "db st' = db st"
    using e by simp_all
  moreover have "dto_word dto = W_word wordEntity"
    by (rule findWordInDatabase_hit_fields(1) [OF assms(2) f])
  ultimately show ?thesis using a b l by blast
qed

text \<open>The lookup of \<open>Hello\<close> in the example store while the phonetic API times out.\<close>

theorem audio_failure_absorbed_witness:
  "(\<forall>n. \<exists>m. httpGet echoEnv n (trim (toLowerCase ''Hello'')) = ApiFailure m) \<and>
   findOne (\<lambda>w. W_word w = trim (toLowerCase ''Hello'') \<or> W_wordNormalized w = trim (toLowerCase ''Hello''))
     (wordRepository (db helloState)) = Some helloWord \<and>
   getAudioUrl (httpGet echoEnv 0) (trim (toLowerCase ''Hello'')) ''US'' = None \<and>
   (\<exists>dto st'.
      lookupWord echoEnv ''Hello'' helloState = (Inr (FromStore dto), st') \<and>
      db st' = db helloState \<and>
      map dto_accent (dto_pronunciations dto) = [''US'', ''UK''] \<and>
      map dto_audio_url (dto_pronunciations dto) = [None, None])"
proof -
  have 1: "\<forall>n. \<exists>m. httpGet echoEnv n (trim (toLowerCase ''Hello'')) = ApiFailure m"
    by (simp add: echoEnv_def)
  have 2: "findOne (\<lambda>w. W_word w = trim (toLowerCase ''Hello'') \<or> W_wordNormalized w = trim (toLowerCase ''Hello''))
     (wordRepository (db helloState)) = Some helloWord"
    by code_simp
  have 3: "map dto_accent (map storedDto (pronunciationsOf (db helloState) helloWord)) = [''US'', ''UK'']"
    by code_simp
  have 4: "map dto_audio_url (map storedDto (pronunciationsOf (db helloState) helloWord)) = [None, None]"
    by code_simp
  note T = audio_failure_absorbed [OF 1 2]
  have a: "getAudioUrl (httpGet echoEnv 0) (trim (toLowerCase ''Hello'')) ''US'' = None"
    using T by blast
  obtain dto st' where "lookupWord echoEnv ''Hello'' helloState = (Inr (FromStore dto), st')"
    "db st' = db helloState"
    "dto_pronunciations dto = map storedDto (pronunciationsOf (db helloState) helloWord)"
    using T by blast
  then have "\<exists>dto st'.
      lookupWord echoEnv ''Hello'' helloState = (Inr (FromStore dto), st') \<and>
      db st' = db helloState \<and>
      map dto_accent (dto_pronunciations dto) = [''US'', ''UK''] \<and>
      map dto_audio_url (dto_pronunciations dto) = [None, None]"
    using 3 4 by auto
  then show ?thesis using 1 2 a by blast
qed

text \<open>
  Claim C9. The definitions of every response assembled from the store are the word's
  definition rows, whatever their order in the table, arranged in ascending order of their
  stored order field.
\<close>

theorem definitions_sorted:
  assumes "findOne (\<lambda>w. W_word w = trim (toLowerCase word) \<or> W_wordNormalized w = trim (toLowerCase word))
             (wordRepository (db st)) = Some wordEntity"
  shows "\<exists>dto st' rows.
           lookupWord env word st = (Inr (FromStore dto), st') \<and>
           dto_definitions dto = map (definitionDto (db st)) rows \<and>
           sorted (map D_definitionOrder rows) \<and>
           mset rows = mset (definitionsOf (db st) wordEntity)"
proof -
  obtain dto st' where l: "lookupWord env word st = (Inr (FromStore dto), st')"
    and f: "findWordInDatabase env (trim (toLowerCase word)) st = (Some dto, st')"
    using lookupWord_hit [OF assms] by blast
  let ?rows = "sort_key D_definitionOrder (definitionsOf (db st) wordEntity)"
  have "dto_definitions dto = map (definitionDto (db st)) ?rows"
    by (rule findWordInDatabase_hit_fields(2) [OF assms f])
  moreover have "sorted (map D_definitionOrder ?rows)" by simp
  moreover have "mset ?rows = mset (definitionsOf (db st) wordEntity)" by simp
  ultimately show ?thesis using l by blast
qed

text \<open>The example store holds the definitions of \<open>hello\<close> with the orders 2, 1.\<close>

theorem definitions_sorted_witness:
  "findOne (\<lambda>w. W_word w = trim (toLowerCase ''Hello '') \<or> W_wordNormalized w = trim (toLowerCase ''Hello ''))
     (wordRepository (db helloState)) = Some helloWord \<and>
   map D_definitionOrder (definitionsOf (db helloState) helloWord) = [2, 1] \<and>
   (\<exists>dto st' rows.
      lookupWord echoEnv ''Hello '' helloState = (Inr (FromStore dto), st') \<and>
      dto_definitions dto = map (definitionDto (db helloState)) rows \<and>
      sorted (map D_definitionOrder rows) \<and>
      mset rows = mset (definitionsOf (db helloState) helloWord))"
proof -
  have 1: "findOne (\<lambda>w. W_word w = trim (toLowerCase ''Hello '') \<or> W_wordNormalized w = trim (toLowerCase ''Hello ''))
     (wordRepository (db helloState)) = Some helloWord"
    by code_simp
  have 2: "map D_definitionOrder (definitionsOf (db helloState) helloWord) = [2, 1]"
    by code_simp
  show ?thesis
    using 1 2 definitions_sorted [OF 1, of echoEnv] by blast
qed

text \<open>
  Claim C10. The input is lowercased and trimmed, and matched against the stored word or the
  normalized key. On every hit the \<open>word\<close> of the response is the word of the matching row,
  not the caller's input.
\<close>

theorem hit_returns_stored_word:
  assumes "findOne (\<lambda>w. W_word w = trim (toLowerCase word) \<or> W_wordNormalized w = trim (toLowerCase word))
             (wordRepository (db st)) = Some wordEntity"
  shows "\<exists>dto st'.
           lookupWord env word st = (Inr (FromStore dto), st') \<and>
           dto_word dto = W_word wordEntity \<and>
           wordEntity \<in> set (wordRepository (db st)) \<and>
           (W_word wordEntity = trim (toLowerCase word) \<or>
            W_wordNormalized wordEntity = trim (toLowerCase word))"
proof -
  obtain dto st' where l: "lookupWord env word st = (Inr (FromStore dto), st')"
    and f: "findWordInDatabase env (trim (toLowerCase word)) st = (Some dto, st')"
    using lookupWord_hit [OF assms] by blast
  have "dto_word dto = W_word wordEntity"
    by (rule findWordInDatabase_hit_fields(1) [OF assms f])
  moreover have "wordEntity \<in> set (wordRepository (db st)) \<and>
           (W_word wordEntity = trim (toLowerCase word) \<or>
            W_wordNormalized wordEntity = trim (toLowerCase word))"
    using assms by (auto simp: findOne_def find_Some_iff in_set_conv_nth)
  ultimately show ?thesis using l by blast
qed

text \<open>Looking up \<open>Hello\<close> against the stored entry \<open>hello\<close> answers with \<open>hello\<close>.\<close>

theorem hit_returns_stored_word_witness:
  "findOne (\<lambda>w. W_word w = trim (toLowerCase ''Hello'') \<or> W_wordNormalized w = trim (toLowerCase ''Hello''))
     (wordRepository (db helloState)) = Some helloWord \<and>
   (\<exists>dto st'.
      lookupWord echoEnv ''Hello'' helloState = (Inr (FromStore dto), st') \<and>
      dto_word dto = ''hello'')"
proof -
  have 1: "findOne (\<lambda>w. W_word w = trim (toLowerCase ''Hello'') \<or> W_wordNormalized w = trim (toLowerCase ''Hello''))
     (wordRepository (db helloState)) = Some helloWord"
    by code_simp
  have 2: "W_word helloWord = ''hello''" by (simp add: helloWord_def)
  show ?thesis
    using 1 hit_returns_stored_word [OF 1, of echoEnv] unfolding 2 by blast
qed

text \<open>
  Claim C2. When no row matches the normalized input, the lookup leaves the store as it was
  (so the word is still missing afterwards), sends one request to the completion endpoint,
  and returns what \<open>generateWordWithLLM\<close> returns: the parsed value as it is, or its error
  unchanged. A second lookup of the same word sends the request again.
\<close>

theorem miss_not_persisted:
  assumes "findOne (\<lambda>w. W_word w = trim (toLowerCase word) \<or> W_wordNormalized w = trim (toLowerCase word))
             (wordRepository (db st)) = None"
  shows "db (snd (lookupWord env word st)) = db st \<and>
         llmRequests (snd (lookupWord env word st)) = llmRequests st @ [trim (toLowerCase word)] \<and>
         fst (lookupWord env word st) =
           (case fst (generateWordWithLLM env (trim (toLowerCase word)) st) of
              Inl e \<Rightarrow> Inl e
            | Inr dictionaryData \<Rightarrow> Inr (FromLLM dictionaryData)) \<and>
         (\<forall>text others jsonText dictionaryData.
            httpPost env (length (llmRequests st)) (trim (toLowerCase word)) = LlmChoices (text # others) \<and>
            jsonMatch (trim text) = Some jsonText \<and>
            JSON_parse env jsonText = Inr dictionaryData \<longrightarrow>
            fst (lookupWord env word st) = Inr (FromLLM dictionaryData)) \<and>
         db (snd (lookupWord env word (snd (lookupWord env word st)))) = db st \<and>
         llmRequests (snd (lookupWord env word (snd (lookupWord env word st)))) =
           llmRequests st @ [trim (toLowerCase word), trim (toLowerCase word)]"
proof -
  let ?key = "trim (toLowerCase word)"
  let ?st1 = "st\<lparr>llmRequests := llmRequests st @ [?key]\<rparr>"
  note first = lookupWord_miss [OF assms, of env]
  have s1: "snd (lookupWord env word st) = ?st1"
    by (simp add: first)
  have "findOne (\<lambda>w. W_word w = ?key \<or> W_wordNormalized w = ?key) (wordRepository (db ?st1)) = None"
    using assms by simp
  note second = lookupWord_miss [OF this, of env]
  have s2: "snd (lookupWord env word ?st1) = ?st1\<lparr>llmRequests := llmRequests ?st1 @ [?key]\<rparr>"
    by (simp add: second)
  have r: "fst (lookupWord env word st) =
           (case fst (generateWordWithLLM env ?key st) of
              Inl e \<Rightarrow> Inl e
            | Inr dictionaryData \<Rightarrow> Inr (FromLLM dictionaryData))"
    by (simp add: first generateWordWithLLM_def Let_def split: sum.splits)
  have p: "\<forall>text others jsonText dictionaryData.
            httpPost env (length (llmRequests st)) ?key = LlmChoices (text # others) \<and>
            jsonMatch (trim text) = Some jsonText \<and>
            JSON_parse env jsonText = Inr dictionaryData \<longrightarrow>
            fst (lookupWord env word st) = Inr (FromLLM dictionaryData)"
    by (simp add: first parseCompletion_def Let_def)
  show ?thesis
    unfolding s1 s2 using r p s1 by simp
qed

text \<open>The lookup of \<open>Serendipity\<close> in the empty store, twice.\<close>

theorem miss_not_persisted_witness:
  \<open>findOne (\<lambda>w. W_word w = trim (toLowerCase ''Serendipity'') \<or>
                 W_wordNormalized w = trim (toLowerCase ''Serendipity''))
      (wordRepository (db emptyState)) = None \<and>
    fst (lookupWord echoEnv ''Serendipity'' emptyState) = Inr (FromLLM ''{"word":"x"}'') \<and>
    db (snd (lookupWord echoEnv ''Serendipity'' emptyState)) = emptyStore \<and>
    llmRequests (snd (lookupWord echoEnv ''Serendipity''
        (snd (lookupWord echoEnv ''Serendipity'' emptyState)))) = [''serendipity'', ''serendipity'']\<close>
proof -
  have h: "findOne (\<lambda>w. W_word w = trim (toLowerCase ''Serendipity'') \<or>
                 W_wordNormalized w = trim (toLowerCase ''Serendipity''))
      (wordRepository (db emptyState)) = None"
    by (simp add: emptyState_def emptyStore_def findOne_def)
  have k: "trim (toLowerCase ''Serendipity'') = ''serendipity''" by code_simp
  have j: \<open>jsonMatch (trim ''Sure, here: {"word":"x"} Hope that helps'') = Some ''{"word":"x"}''\<close>
    by code_simp
  note T = miss_not_persisted [OF h, of echoEnv]
  have p: \<open>httpPost echoEnv (length (llmRequests emptyState)) (trim (toLowerCase ''Serendipity''))
      = LlmChoices [''Sure, here: {"word":"x"} Hope that helps'']\<close>
    by (simp add: echoEnv_def)
  have q: \<open>JSON_parse echoEnv ''{"word":"x"}'' = Inr ''{"word":"x"}''\<close>
    by (simp add: echoEnv_def)
  have r: \<open>fst (lookupWord echoEnv ''Serendipity'' emptyState) = Inr (FromLLM ''{"word":"x"}'')\<close>
    using T p j q by blast
  have d: "db (snd (lookupWord echoEnv ''Serendipity'' emptyState)) = emptyStore"
    using T by (simp add: emptyState_def)
  have l: "llmRequests (snd (lookupWord echoEnv ''Serendipity''
        (snd (lookupWord echoEnv ''Serendipity'' emptyState)))) = [''serendipity'', ''serendipity'']"
    using T by (simp add: k emptyState_def)
  show ?thesis
    using h r d l by blast
qed

section \<open>Properties of the JSON extraction\<close>

lemma closing_last:
  "CHR ''}'' \<notin> set post \<Longrightarrow> closing (mid @ CHR ''}'' # post) = Some (mid @ [CHR ''}''])"
proof -
  assume a: "CHR ''}'' \<notin> set post"
  have "dropWhile (\<lambda>c. c \<noteq> CHR ''}'') (rev post @ CHR ''}'' # rev mid) = CHR ''}'' # rev mid"
    using a by (subst dropWhile_append2) auto
  then show ?thesis by (simp add: closing_def)
qed

lemma closing_Some: "closing rest = Some m \<Longrightarrow> \<exists>b c. rest = b @ CHR ''}'' # c \<and> m = b @ [CHR ''}'']"
proof -
  assume a: "closing rest = Some m"
  define r where "r = dropWhile (\<lambda>c. c \<noteq> CHR ''}'') (rev rest)"
  have m: "m = rev r" "r \<noteq> []" using a by (auto simp: closing_def r_def simp del: dropWhile_eq_Nil_conv split: list.splits)
  then have hd: "hd r = CHR ''}''" using hd_dropWhile[of "\<lambda>c. c \<noteq> CHR ''}''" "rev rest"] by (simp add: r_def)
  have "rev rest = takeWhile (\<lambda>c. c \<noteq> CHR ''}'') (rev rest) @ r"
    by (simp add: r_def)
  then have "rest = rev r @ rev (takeWhile (\<lambda>c. c \<noteq> CHR ''}'') (rev rest))"
    by (metis rev_append rev_rev_ident)
  moreover have "rev r = rev (tl r) @ [CHR ''}'']" using m(2) hd by (cases r) auto
  ultimately show ?thesis using m(1) by (metis append_Cons append_Nil append_assoc)
qed

lemma jsonMatch_first_last:
  "CHR ''{'' \<notin> set pre \<Longrightarrow> CHR ''}'' \<notin> set post \<Longrightarrow>
   jsonMatch (pre @ CHR ''{'' # mid @ CHR ''}'' # post) = Some (CHR ''{'' # mid @ [CHR ''}''])"
  by (induction pre) (auto simp: closing_last)

lemma jsonMatch_Some:
  "jsonMatch s = Some m \<Longrightarrow>
   \<exists>a b c. s = a @ CHR ''{'' # b @ CHR ''}'' # c \<and> m = CHR ''{'' # b @ [CHR ''}'']"
proof (induction s)
  case Nil
  then show ?case by simp
next
  case (Cons x s)
  show ?case
  proof (cases "x = CHR ''{'' \<and> closing s \<noteq> None")
    case True
    then obtain m' where m': "closing s = Some m'" by auto
    then obtain b c where "s = b @ CHR ''}'' # c" "m' = b @ [CHR ''}'']"
      using closing_Some by blast
    then have "x # s = [] @ CHR ''{'' # b @ CHR ''}'' # c \<and> m = CHR ''{'' # b @ [CHR ''}'']"
      using True Cons.prems m' by simp
    then show ?thesis by blast
  next
    case False
    then have "jsonMatch s = Some m"
      using Cons.prems by (auto split: if_splits option.splits)
    then obtain a b c where "s = a @ CHR ''{'' # b @ CHR ''}'' # c" "m = CHR ''{'' # b @ [CHR ''}'']"
      using Cons.IH by blast
    then have "x # s = (x # a) @ CHR ''{'' # b @ CHR ''}'' # c \<and> m = CHR ''{'' # b @ [CHR ''}'']"
      by simp
    then show ?thesis by blast
  qed
qed

lemma trim_decompose: "\<exists>l r. s = l @ trim s @ r"
proof -
  let ?d = "dropWhile isWhiteSpace s"
  have "s = takeWhile isWhiteSpace s @ ?d" by simp
  moreover have "rev ?d = takeWhile isWhiteSpace (rev ?d) @ dropWhile isWhiteSpace (rev ?d)" by simp
  then have "?d = trim s @ rev (takeWhile isWhiteSpace (rev ?d))"
    unfolding trim_def by (metis rev_append rev_rev_ident)
  ultimately show ?thesis by metis
qed

lemma trim_embedded:
  assumes "\<not> isWhiteSpace x" "\<not> isWhiteSpace y"
  shows "trim (pre @ x # mid @ y # post) =
         dropWhile isWhiteSpace pre @ x # mid @ y # rev (dropWhile isWhiteSpace (rev post))"
proof -
  have "dropWhile isWhiteSpace (pre @ x # mid @ y # post) = dropWhile isWhiteSpace pre @ x # mid @ y # post"
    using assms(1) by (simp add: dropWhile_append3)
  moreover have "dropWhile isWhiteSpace (rev post @ y # rev mid @ x # rev (dropWhile isWhiteSpace pre))
     = dropWhile isWhiteSpace (rev post) @ y # rev mid @ x # rev (dropWhile isWhiteSpace pre)"
    using assms(2) by (simp add: dropWhile_append3)
  ultimately show ?thesis by (simp add: trim_def)
qed

lemma brace_not_ws: "\<not> isWhiteSpace CHR ''{''" "\<not> isWhiteSpace CHR ''}''"
  by (simp_all add: isWhiteSpace_def)

lemma no_pair_jsonMatch:
  assumes "\<nexists>a b c. text = a @ CHR ''{'' # b @ CHR ''}'' # c"
  shows "jsonMatch (trim text) = None"
proof (rule ccontr)
  assume "jsonMatch (trim text) \<noteq> None"
  then obtain m where "jsonMatch (trim text) = Some m" by auto
  then obtain a b c where "trim text = a @ CHR ''{'' # b @ CHR ''}'' # c"
    using jsonMatch_Some by blast
  moreover obtain l r where "text = l @ trim text @ r" using trim_decompose by blast
  ultimately have "text = (l @ a) @ CHR ''{'' # b @ CHR ''}'' # (c @ r)" by simp
  then show False using assms by blast
qed

lemma no_brace_no_pair:
  "CHR ''{'' \<notin> set text \<Longrightarrow> \<nexists>a b c. text = a @ CHR ''{'' # b @ CHR ''}'' # c"
  by auto

text \<open>
  Claim C3. The extraction takes the text from the first \<open>{\<close> to the last \<open>}\<close> and gives it to
  \<open>JSON.parse\<close>. So for a completion that is an object \<open>{ body }\<close> between a leading text
  without \<open>{\<close> and a trailing text without \<open>}\<close> (prose without braces is such text), the matched
  text is exactly the object, and the result is what \<open>JSON.parse\<close> makes of it.
\<close>

theorem json_extraction:
  assumes "CHR ''{'' \<notin> set pre" and "CHR ''}'' \<notin> set post"
  shows "jsonMatch (trim (pre @ CHR ''{'' # body @ CHR ''}'' # post)) = Some (CHR ''{'' # body @ ''}'')
       \<and> parseCompletion env (LlmChoices ((pre @ CHR ''{'' # body @ CHR ''}'' # post) # others)) =
         (case JSON_parse env (CHR ''{'' # body @ ''}'') of
            Inl message \<Rightarrow> Inl (Error message)
          | Inr dictionaryData \<Rightarrow> Inr dictionaryData)"
proof -
  let ?l = "dropWhile isWhiteSpace pre" and ?r = "rev (dropWhile isWhiteSpace (rev post))"
  have t: "trim (pre @ CHR ''{'' # body @ CHR ''}'' # post) = ?l @ CHR ''{'' # body @ CHR ''}'' # ?r"
    by (rule trim_embedded) (rule brace_not_ws)+
  have "CHR ''{'' \<notin> set ?l"
    using assms(1) by (auto dest: set_dropWhileD)
  moreover have "CHR ''}'' \<notin> set ?r"
    using assms(2) by (auto dest: set_dropWhileD)
  ultimately have m: "jsonMatch (trim (pre @ CHR ''{'' # body @ CHR ''}'' # post)) = Some (CHR ''{'' # body @ ''}'')"
    unfolding t by (rule jsonMatch_first_last)
  then show ?thesis
    by (simp add: parseCompletion_def Let_def)
qed

text \<open>The example of the specification: an object between two lines of prose.\<close>

theorem json_extraction_witness:
  \<open>CHR ''{'' \<notin> set (''Sure, here:'' @ [CHR 0x0A]) \<and> CHR ''}'' \<notin> set (CHR 0x0A # ''Hope that helps'') \<and>
   parseCompletion echoEnv
     (LlmChoices [(''Sure, here:'' @ [CHR 0x0A]) @ CHR ''{'' # ''"word":"x"'' @ CHR ''}'' # (CHR 0x0A # ''Hope that helps'')])
   = Inr ''{"word":"x"}''\<close>
proof -
  have 1: "CHR ''{'' \<notin> set (''Sure, here:'' @ [CHR 0x0A])" by simp
  have 2: "CHR ''}'' \<notin> set (CHR 0x0A # ''Hope that helps'')" by simp
  show ?thesis
    using 1 2 json_extraction [OF 1 2, of \<open>''"word":"x"''\<close> echoEnv "[]"]
    by (simp add: echoEnv_def)
qed

text \<open>
  Claim C4. When the completion has no \<open>{\<close> with a \<open>}\<close> after it, the lookup of a word the
  store does not have fails with the \<open>HttpException\<close> \<open>Failed to parse dictionary data\<close> of
  status 500, thrown before \<open>JSON.parse\<close> is reached.
\<close>

theorem unparsable_completion:
  assumes "findOne (\<lambda>w. W_word w = trim (toLowerCase word) \<or> W_wordNormalized w = trim (toLowerCase word))
             (wordRepository (db st)) = None"
    and "httpPost env (length (llmRequests st)) (trim (toLowerCase word)) = LlmChoices (text # others)"
    and "\<nexists>a b c. text = a @ CHR ''{'' # b @ CHR ''}'' # c"
  shows "fst (lookupWord env word st) = Inl (HttpException ''Failed to parse dictionary data'' 500)"
  using assms(2) no_pair_jsonMatch [OF assms(3)]
  by (simp add: lookupWord_miss [OF assms(1)] parseCompletion_def Let_def rethrow_def)

text \<open>A completion of prose only.\<close>

theorem unparsable_completion_witness:
  "findOne (\<lambda>w. W_word w = trim (toLowerCase ''Serendipity'') \<or>
                 W_wordNormalized w = trim (toLowerCase ''Serendipity''))
      (wordRepository (db emptyState)) = None \<and>
   httpPost proseEnv (length (llmRequests emptyState)) (trim (toLowerCase ''Serendipity''))
     = LlmChoices [''I do not know that word.''] \<and>
   (\<nexists>a b c. ''I do not know that word.'' = a @ CHR ''{'' # b @ CHR ''}'' # c) \<and>
   fst (lookupWord proseEnv ''Serendipity'' emptyState)
     = Inl (HttpException ''Failed to parse dictionary data'' 500)"
proof -
  have 1: "findOne (\<lambda>w. W_word w = trim (toLowerCase ''Serendipity'') \<or>
                 W_wordNormalized w = trim (toLowerCase ''Serendipity''))
      (wordRepository (db emptyState)) = None"
    by (simp add: emptyState_def emptyStore_def findOne_def)
  have 2: "httpPost proseEnv (length (llmRequests emptyState)) (trim (toLowerCase ''Serendipity''))
     = LlmChoices [''I do not know that word.'']"
    by (simp add: proseEnv_def)
  have 3: "\<nexists>a b c. ''I do not know that word.'' = a @ CHR ''{'' # b @ CHR ''}'' # c"
    by (rule no_brace_no_pair) simp
  show ?thesis
    using 1 2 3 unparsable_completion [OF 1 2 3] by blast
qed

section \<open>Properties of the import\<close>

lemma findOne_None_iff: "findOne P xs = None \<longleftrightarrow> (\<forall>x \<in> set xs. \<not> P x)"
  by (auto simp: findOne_def find_None_iff)

lemma findOne_Some: "findOne P xs = Some x \<Longrightarrow> x \<in> set xs \<and> P x"
  by (auto simp: findOne_def find_Some_iff)

lemma findOne_append:
  "findOne P (xs @ ys) = (case findOne P xs of None \<Rightarrow> findOne P ys | Some x \<Rightarrow> Some x)"
  by (induction xs) (simp_all add: findOne_def)

lemma save_Inr: "save refusals inserted = Inr s1 \<longleftrightarrow> refusals = [] \<and> s1 = inserted"
  by (auto simp: save_def split: list.splits)

lemma varcharColumn_fits: "varcharColumn n v = [] \<longleftrightarrow> length v \<le> n"
  by (simp add: varcharColumn_def)

lemma integerColumn_fits: "integerColumn v = [] \<longleftrightarrow> - 2147483648 \<le> v \<and> v \<le> 2147483647"
  by (simp add: integerColumn_def)

lemma finalStore_simps:
  "finalStore (Inr s) = s" "finalStore (Inl (e, s)) = s"
  by (simp_all add: finalStore_def)

lemma forEach_invariant:
  assumes "P s" and "\<And>s x s1. P s \<Longrightarrow> body s x = Inr s1 \<Longrightarrow> P s1"
  shows "P (finalStore (forEach body s xs))"
  using assms(1)
proof (induction xs arbitrary: s)
  case Nil
  then show ?case by (simp add: finalStore_simps)
next
  case (Cons x xs)
  show ?case
  proof (cases "body s x")
    case (Inl e)
    then show ?thesis using Cons.prems by (simp add: finalStore_simps)
  next
    case (Inr s1)
    then have "P s1" using Cons.prems assms(2) by blast
    then show ?thesis using Inr Cons.IH by simp
  qed
qed

lemma forEach_skip:
  "(\<And>x. x \<in> set xs \<Longrightarrow> body s x = Inr s) \<Longrightarrow> forEach body s xs = Inr s"
  by (induction xs) simp_all

lemma forEach_succeeds:
  "(\<And>s x. x \<in> set xs \<Longrightarrow> \<exists>s1. body s x = Inr s1) \<Longrightarrow> \<exists>s'. forEach body s xs = Inr s'"
proof (induction xs arbitrary: s)
  case Nil
  show ?case by simp
next
  case (Cons x xs)
  obtain s1 where "body s x = Inr s1" using Cons.prems [of x s] by auto
  moreover have "\<exists>s'. forEach body s1 xs = Inr s'"
    using Cons.IH Cons.prems by simp
  ultimately show ?case by simp
qed

lemma forEach_establishes:
  assumes "forEach body s xs = Inr s'"
    and step: "\<And>s x s1. body s x = Inr s1 \<Longrightarrow> Q x s1"
    and keep: "\<And>s y s1 x. Q x s \<Longrightarrow> body s y = Inr s1 \<Longrightarrow> Q x s1"
  shows "\<forall>x \<in> set xs. Q x s'"
  using assms(1)
proof (induction xs arbitrary: s)
  case Nil
  show ?case by simp
next
  case (Cons x xs)
  obtain s1 where 1: "body s x = Inr s1" and 2: "forEach body s1 xs = Inr s'"
    using Cons.prems by (auto split: sum.splits)
  have "Q x s1" using 1 step by blast
  then have "Q x (finalStore (forEach body s1 xs))"
    using keep by (rule forEach_invariant)
  then have "Q x s'" using 2 by (simp add: finalStore_simps)
  moreover have "\<forall>y \<in> set xs. Q y s'" using Cons.IH 2 by blast
  ultimately show ?case by simp
qed

lemma finalStore_andThen:
  "finalStore (andThen r next) = (case r of Inl thrown \<Rightarrow> finalStore r | Inr s \<Rightarrow> finalStore (next s))"
  by (simp add: andThen_def finalStore_def split: sum.splits)

lemma importPronunciation_frame:
  assumes "importPronunciation wid s p = Inr s1"
  shows "wordRepository s1 = wordRepository s" "definitionRepository s1 = definitionRepository s"
    "definitionSeq s1 = definitionSeq s" "wordFormRepository s1 = wordFormRepository s"
    "synonymRepository s1 = synonymRepository s"
  using assms
  by (auto simp: importPronunciation_def Let_def save_Inr split: option.splits)

lemma importPronunciation_skip:
  "hasPronunciation wid s (in_accent p) \<Longrightarrow> importPronunciation wid s p = Inr s"
  by (auto simp: importPronunciation_def hasPronunciation_def findOne_None_iff split: option.splits)

lemma importPronunciation_has:
  "importPronunciation wid s p = Inr s1 \<Longrightarrow> hasPronunciation wid s1 (in_accent p)"
  by (auto simp: importPronunciation_def hasPronunciation_def Let_def save_Inr
      split: option.splits dest: findOne_Some)

lemma importPronunciation_mono:
  "hasPronunciation wid s a \<Longrightarrow> importPronunciation wid s p = Inr s1 \<Longrightarrow>
   hasPronunciation wid s1 a"
  by (auto simp: importPronunciation_def hasPronunciation_def Let_def save_Inr
      split: option.splits)

lemma importPronunciation_fits:
  "length (in_accent p) \<le> 10 \<Longrightarrow> \<exists>s1. importPronunciation wid s p = Inr s1"
  by (simp add: importPronunciation_def Let_def save_def pronunciationRefusals_def
      varcharColumn_def split: option.splits)

lemma importWordForm_frame:
  assumes "importWordForm wid s f = Inr s1"
  shows "wordRepository s1 = wordRepository s" "pronunciationRepository s1 = pronunciationRepository s"
    "definitionRepository s1 = definitionRepository s" "synonymRepository s1 = synonymRepository s"
  using assms
  by (auto simp: importWordForm_def Let_def save_Inr split: option.splits prod.splits)

lemma importWordForm_skip:
  "hasWordForm wid s t \<Longrightarrow> importWordForm wid s (t, w) = Inr s"
  by (auto simp: importWordForm_def hasWordForm_def findOne_None_iff split: option.splits)

lemma importWordForm_has:
  "importWordForm wid s (t, w) = Inr s1 \<Longrightarrow> hasWordForm wid s1 t"
  by (auto simp: importWordForm_def hasWordForm_def Let_def save_Inr
      split: option.splits dest: findOne_Some)

lemma importWordForm_mono:
  "hasWordForm wid s t \<Longrightarrow> importWordForm wid s f = Inr s1 \<Longrightarrow> hasWordForm wid s1 t"
  by (auto simp: importWordForm_def hasWordForm_def Let_def save_Inr
      split: option.splits prod.splits)

lemma importWordForm_fits:
  "length t \<le> 50 \<Longrightarrow> length w \<le> 255 \<Longrightarrow> \<exists>s1. importWordForm wid s (t, w) = Inr s1"
  by (simp add: importWordForm_def Let_def save_def wordFormRefusals_def
      varcharColumn_def split: option.splits)

lemma importSynonym_frame:
  assumes "importSynonym wid s y = Inr s1"
  shows "wordRepository s1 = wordRepository s" "pronunciationRepository s1 = pronunciationRepository s"
    "definitionRepository s1 = definitionRepository s" "wordFormRepository s1 = wordFormRepository s"
  using assms
  by (auto simp: importSynonym_def Let_def save_Inr split: option.splits)

lemma importSynonym_skip: "hasSynonym wid s y \<Longrightarrow> importSynonym wid s y = Inr s"
  by (auto simp: importSynonym_def hasSynonym_def findOne_None_iff split: option.splits)

lemma importSynonym_has: "importSynonym wid s y = Inr s1 \<Longrightarrow> hasSynonym wid s1 y"
  by (auto simp: importSynonym_def hasSynonym_def Let_def save_Inr
      split: option.splits dest: findOne_Some)

lemma importSynonym_mono:
  "hasSynonym wid s t \<Longrightarrow> importSynonym wid s y = Inr s1 \<Longrightarrow> hasSynonym wid s1 t"
  by (auto simp: importSynonym_def hasSynonym_def Let_def save_Inr split: option.splits)

lemma importSynonym_fits: "length y \<le> 255 \<Longrightarrow> \<exists>s1. importSynonym wid s y = Inr s1"
  by (simp add: importSynonym_def Let_def save_def synonymRefusals_def
      varcharColumn_def split: option.splits)

lemma foldl_importExample_frame:
  "wordRepository (foldl (importExample i) s exs) = wordRepository s \<and>
   pronunciationRepository (foldl (importExample i) s exs) = pronunciationRepository s \<and>
   definitionRepository (foldl (importExample i) s exs) = definitionRepository s \<and>
   definitionSeq (foldl (importExample i) s exs) = definitionSeq s \<and>
   wordFormRepository (foldl (importExample i) s exs) = wordFormRepository s \<and>
   synonymRepository (foldl (importExample i) s exs) = synonymRepository s"
  by (induction exs arbitrary: s) (simp_all add: importExample_def)

lemma importDefinition_frame:
  assumes "importDefinition wid s idef = Inr s1"
  shows "wordRepository s1 = wordRepository s" "pronunciationRepository s1 = pronunciationRepository s"
    "wordFormRepository s1 = wordFormRepository s" "synonymRepository s1 = synonymRepository s"
  using assms
  by (auto simp: importDefinition_def Let_def save_Inr foldl_importExample_frame
      split: prod.splits option.splits sum.splits)

lemma importDefinition_rows:
  assumes "importDefinition wid s (i, def) = Inr s1"
  shows "definitionRepository s1 = definitionRepository s @ [createDefinition (definitionSeq s) wid i def]"
    and "definitionSeq s1 = Suc (definitionSeq s)"
  using assms
  by (auto simp: importDefinition_def Let_def save_Inr foldl_importExample_frame
      split: option.splits sum.splits)

lemma importDefinition_fits:
  assumes "length (in_pos def) \<le> 50" "length (or_default (in_level def) ''intermediate'') \<le> 20"
    "i < 2147483647"
  shows "\<exists>s1. importDefinition wid s (i, def) = Inr s1"
  using assms
  by (simp add: importDefinition_def Let_def save_def definitionRefusals_def createDefinition_def
      varcharColumn_def integerColumn_def split: option.splits)

lemma forEach_importDefinition_rows:
  "forEach (importDefinition wid) s (enumerate i defs) = Inr s' \<Longrightarrow>
   definitionRepository s' = definitionRepository s @ definitionBatch (definitionSeq s) wid i defs"
proof (induction defs arbitrary: s i)
  case Nil
  then show ?case by simp
next
  case (Cons d defs)
  obtain s1 where 1: "importDefinition wid s (i, d) = Inr s1"
    and 2: "forEach (importDefinition wid) s1 (enumerate (Suc i) defs) = Inr s'"
    using Cons.prems by (auto split: sum.splits)
  show ?case
    using Cons.IH [OF 2] importDefinition_rows [OF 1] by simp
qed

lemma definitionBatch_order:
  "map D_definitionOrder (definitionBatch ident wid i defs) =
     map int [Suc i ..< Suc i + length defs]"
proof (induction defs arbitrary: ident i)
  case Nil
  show ?case by simp
next
  case (Cons d defs)
  have "[Suc i ..< Suc i + length (d # defs)] = Suc i # [Suc (Suc i) ..< Suc (Suc i) + length defs]"
    by (subst upt_conv_Cons) simp_all
  then show ?case by (simp add: Cons.IH createDefinition_def)
qed

lemma forEach_Inr_invariant:
  assumes "forEach body s xs = Inr s'" and "P s"
    and "\<And>s x s1. P s \<Longrightarrow> body s x = Inr s1 \<Longrightarrow> P s1"
  shows "P s'"
  using forEach_invariant [of P s body xs, OF assms(2,3)] assms(1)
  by (simp add: finalStore_simps)

lemma importPronunciations_frame:
  assumes "importPronunciations wid ps s = Inr s'"
  shows "wordRepository s' = wordRepository s \<and> definitionRepository s' = definitionRepository s \<and>
    definitionSeq s' = definitionSeq s \<and> wordFormRepository s' = wordFormRepository s \<and>
    synonymRepository s' = synonymRepository s"
proof (cases ps)
  case None
  then show ?thesis using assms by (simp add: importPronunciations_def)
next
  case (Some prons)
  then have "forEach (importPronunciation wid) s prons = Inr s'"
    using assms by (simp add: importPronunciations_def)
  then show ?thesis
    by (rule forEach_Inr_invariant) (simp_all add: importPronunciation_frame)
qed

lemma importPronunciations_again:
  assumes "importPronunciations wid ps s = Inr s'"
    and "pronunciationRepository s2 = pronunciationRepository s'"
  shows "importPronunciations wid ps s2 = Inr s2"
proof (cases ps)
  case None
  then show ?thesis by (simp add: importPronunciations_def)
next
  case (Some prons)
  then have "forEach (importPronunciation wid) s prons = Inr s'"
    using assms(1) by (simp add: importPronunciations_def)
  then have "\<forall>p \<in> set prons. hasPronunciation wid s' (in_accent p)"
    by (rule forEach_establishes) (auto intro: importPronunciation_has importPronunciation_mono)
  then have "\<forall>p \<in> set prons. hasPronunciation wid s2 (in_accent p)"
    using assms(2) by (simp add: hasPronunciation_def)
  then have "forEach (importPronunciation wid) s2 prons = Inr s2"
    by (intro forEach_skip importPronunciation_skip) simp
  then show ?thesis using Some by (simp add: importPronunciations_def)
qed

lemma importPronunciations_fits:
  assumes "list_all (\<lambda>p. length (in_accent p) \<le> 10) (payloadPronunciations data)"
  shows "\<exists>s'. importPronunciations wid (in_pronunciations data) s = Inr s'"
proof (cases "in_pronunciations data")
  case None
  then show ?thesis by (simp add: importPronunciations_def)
next
  case (Some prons)
  then have "\<And>p. p \<in> set prons \<Longrightarrow> length (in_accent p) \<le> 10"
    using assms by (simp add: payloadPronunciations_def list_all_iff)
  then have "\<exists>s'. forEach (importPronunciation wid) s prons = Inr s'"
    by (intro forEach_succeeds importPronunciation_fits)
  then show ?thesis using Some by (simp add: importPronunciations_def)
qed

lemma importPronunciations_words:
  "wordRepository (finalStore (importPronunciations wid ps s)) = wordRepository s"
proof (cases ps)
  case None
  then show ?thesis by (simp add: importPronunciations_def finalStore_simps)
next
  case (Some prons)
  have "wordRepository (finalStore (forEach (importPronunciation wid) s prons)) = wordRepository s"
    by (rule forEach_invariant) (simp_all add: importPronunciation_frame)
  then show ?thesis using Some by (simp add: importPronunciations_def)
qed

lemma importWordForms_frame:
  assumes "importWordForms wid fs s = Inr s'"
  shows "wordRepository s' = wordRepository s \<and> pronunciationRepository s' = pronunciationRepository s \<and>
    definitionRepository s' = definitionRepository s \<and> synonymRepository s' = synonymRepository s"
proof (cases fs)
  case None
  then show ?thesis using assms by (simp add: importWordForms_def)
next
  case (Some forms)
  then have "forEach (importWordForm wid) s forms = Inr s'"
    using assms by (simp add: importWordForms_def)
  then show ?thesis
    by (rule forEach_Inr_invariant) (simp_all add: importWordForm_frame)
qed

lemma importWordForms_again:
  assumes "importWordForms wid fs s = Inr s'"
    and "wordFormRepository s2 = wordFormRepository s'"
  shows "importWordForms wid fs s2 = Inr s2"
proof (cases fs)
  case None
  then show ?thesis by (simp add: importWordForms_def)
next
  case (Some forms)
  then have "forEach (importWordForm wid) s forms = Inr s'"
    using assms(1) by (simp add: importWordForms_def)
  then have "\<forall>f \<in> set forms. hasWordForm wid s' (fst f)"
    by (rule forEach_establishes) (auto intro: importWordForm_has importWordForm_mono)
  then have "\<forall>f \<in> set forms. hasWordForm wid s2 (fst f)"
    using assms(2) by (simp add: hasWordForm_def)
  then have "\<And>f. f \<in> set forms \<Longrightarrow> importWordForm wid s2 f = Inr s2"
    using importWordForm_skip by (metis prod.collapse)
  then have "forEach (importWordForm wid) s2 forms = Inr s2"
    by (rule forEach_skip)
  then show ?thesis using Some by (simp add: importWordForms_def)
qed

lemma importWordForms_fits:
  assumes "list_all (\<lambda>(formType, formWord). length formType \<le> 50 \<and> length formWord \<le> 255)
             (payloadWordForms data)"
  shows "\<exists>s'. importWordForms wid (in_word_forms data) s = Inr s'"
proof (cases "in_word_forms data")
  case None
  then show ?thesis by (simp add: importWordForms_def)
next
  case (Some forms)
  then have "\<And>t w. (t, w) \<in> set forms \<Longrightarrow> length t \<le> 50 \<and> length w \<le> 255"
    using assms by (auto simp: payloadWordForms_def list_all_iff)
  then have "\<And>s f. f \<in> set forms \<Longrightarrow> \<exists>s1. importWordForm wid s f = Inr s1"
    using importWordForm_fits by (metis prod.collapse)
  then have "\<exists>s'. forEach (importWordForm wid) s forms = Inr s'"
    by (rule forEach_succeeds)
  then show ?thesis using Some by (simp add: importWordForms_def)
qed

lemma importWordForms_words:
  "wordRepository (finalStore (importWordForms wid fs s)) = wordRepository s"
proof (cases fs)
  case None
  then show ?thesis by (simp add: importWordForms_def finalStore_simps)
next
  case (Some forms)
  have "wordRepository (finalStore (forEach (importWordForm wid) s forms)) = wordRepository s"
    by (rule forEach_invariant) (simp_all add: importWordForm_frame)
  then show ?thesis using Some by (simp add: importWordForms_def)
qed

lemma importSynonyms_frame:
  assumes "importSynonyms wid ys s = Inr s'"
  shows "wordRepository s' = wordRepository s \<and> pronunciationRepository s' = pronunciationRepository s \<and>
    definitionRepository s' = definitionRepository s \<and> wordFormRepository s' = wordFormRepository s"
proof (cases ys)
  case None
  then show ?thesis using assms by (simp add: importSynonyms_def)
next
  case (Some syns)
  then have "forEach (importSynonym wid) s syns = Inr s'"
    using assms by (simp add: importSynonyms_def)
  then show ?thesis
    by (rule forEach_Inr_invariant) (simp_all add: importSynonym_frame)
qed

lemma importSynonyms_again:
  assumes "importSynonyms wid ys s = Inr s'"
    and "synonymRepository s2 = synonymRepository s'"
  shows "importSynonyms wid ys s2 = Inr s2"
proof (cases ys)
  case None
  then show ?thesis by (simp add: importSynonyms_def)
next
  case (Some syns)
  then have "forEach (importSynonym wid) s syns = Inr s'"
    using assms(1) by (simp add: importSynonyms_def)
  then have "\<forall>y \<in> set syns. hasSynonym wid s' y"
    by (rule forEach_establishes) (auto intro: importSynonym_has importSynonym_mono)
  then have "\<forall>y \<in> set syns. hasSynonym wid s2 y"
    using assms(2) by (simp add: hasSynonym_def)
  then have "forEach (importSynonym wid) s2 syns = Inr s2"
    by (intro forEach_skip importSynonym_skip) simp
  then show ?thesis using Some by (simp add: importSynonyms_def)
qed

lemma importSynonyms_fits:
  assumes "list_all (\<lambda>syn. length syn \<le> 255) (payloadSynonyms data)"
  shows "\<exists>s'. importSynonyms wid (in_synonyms data) s = Inr s'"
proof (cases "in_synonyms data")
  case None
  then show ?thesis by (simp add: importSynonyms_def)
next
  case (Some syns)
  then have "\<And>y. y \<in> set syns \<Longrightarrow> length y \<le> 255"
    using assms by (simp add: payloadSynonyms_def list_all_iff)
  then have "\<exists>s'. forEach (importSynonym wid) s syns = Inr s'"
    by (intro forEach_succeeds importSynonym_fits)
  then show ?thesis using Some by (simp add: importSynonyms_def)
qed

lemma importSynonyms_words:
  "wordRepository (finalStore (importSynonyms wid ys s)) = wordRepository s"
proof (cases ys)
  case None
  then show ?thesis by (simp add: importSynonyms_def finalStore_simps)
next
  case (Some syns)
  have "wordRepository (finalStore (forEach (importSynonym wid) s syns)) = wordRepository s"
    by (rule forEach_invariant) (simp_all add: importSynonym_frame)
  then show ?thesis using Some by (simp add: importSynonyms_def)
qed

lemma importDefinitions_frame:
  assumes "importDefinitions wid ds s = Inr s'"
  shows "wordRepository s' = wordRepository s \<and> pronunciationRepository s' = pronunciationRepository s \<and>
    wordFormRepository s' = wordFormRepository s \<and> synonymRepository s' = synonymRepository s"
proof (cases ds)
  case None
  then show ?thesis using assms by (simp add: importDefinitions_def)
next
  case (Some defs)
  then have "forEach (importDefinition wid) s (enumerate 0 defs) = Inr s'"
    using assms by (simp add: importDefinitions_def)
  then show ?thesis
    by (rule forEach_Inr_invariant) (simp_all add: importDefinition_frame)
qed

lemma importDefinitions_rows:
  assumes "importDefinitions wid (in_definitions data) s = Inr s'"
  shows "definitionRepository s' =
     definitionRepository s @ definitionBatch (definitionSeq s) wid 0 (payloadDefinitions data)"
  using assms
  by (auto simp: importDefinitions_def payloadDefinitions_def forEach_importDefinition_rows
      split: option.splits)

lemma importDefinitions_fits:
  assumes "list_all (\<lambda>d. length (in_pos d) \<le> 50 \<and>
                     length (or_default (in_level d) ''intermediate'') \<le> 20)
        (payloadDefinitions data)"
    and "length (payloadDefinitions data) \<le> 2147483647"
  shows "\<exists>s'. importDefinitions wid (in_definitions data) s = Inr s'"
proof (cases "in_definitions data")
  case None
  then show ?thesis by (simp add: importDefinitions_def)
next
  case (Some defs)
  have "\<And>s x. x \<in> set (enumerate 0 defs) \<Longrightarrow> \<exists>s1. importDefinition wid s x = Inr s1"
  proof -
    fix s x
    assume mem: "x \<in> set (enumerate 0 defs)"
    obtain i d where xid: "x = (i, d)" by (cases x)
    then have "i < length defs" "d \<in> set defs"
      using mem by (auto simp: in_set_enumerate_eq)
    note x = xid this
    then have "length (in_pos d) \<le> 50" "length (or_default (in_level d) ''intermediate'') \<le> 20"
      "i < 2147483647"
      using assms Some by (auto simp: payloadDefinitions_def list_all_iff)
    then show "\<exists>s1. importDefinition wid s x = Inr s1"
      unfolding x(1) by (rule importDefinition_fits)
  qed
  then have "\<exists>s'. forEach (importDefinition wid) s (enumerate 0 defs) = Inr s'"
    by (rule forEach_succeeds)
  then show ?thesis using Some by (simp add: importDefinitions_def)
qed

lemma importDefinitions_words:
  "wordRepository (finalStore (importDefinitions wid ds s)) = wordRepository s"
proof (cases ds)
  case None
  then show ?thesis by (simp add: importDefinitions_def finalStore_simps)
next
  case (Some defs)
  have "wordRepository (finalStore (forEach (importDefinition wid) s (enumerate 0 defs))) = wordRepository s"
    by (rule forEach_invariant) (simp_all add: importDefinition_frame)
  then show ?thesis using Some by (simp add: importDefinitions_def)
qed

lemma findOrCreateWord_again:
  "findOne (\<lambda>w. W_word w = in_word data) (wordRepository s) = Some w \<Longrightarrow>
   findOrCreateWord data s = Inr (w, s)"
  by (simp add: findOrCreateWord_def)

lemma createWord_fits:
  assumes "wordFits data" and "findOne (\<lambda>w. W_word w = in_word data) rows = None"
  shows "wordRefusals (createWord data ident) rows = []"
proof -
  have "in_word data \<notin> set (map W_word rows)"
    using assms(2) by (auto simp: findOne_None_iff)
  then show ?thesis
    using assms(1)
    by (auto simp: wordRefusals_def createWord_def wordFits_def varcharColumn_def
        integerColumn_def split: option.splits)
qed

lemma findOrCreateWord_creates:
  assumes "wordFits data" and "findOne (\<lambda>w. W_word w = in_word data) (wordRepository s) = None"
  shows "findOrCreateWord data s =
     Inr (createWord data (wordSeq s),
          s\<lparr>wordRepository := wordRepository s @ [createWord data (wordSeq s)],
            wordSeq := Suc (wordSeq s)\<rparr>)"
  using assms(2) createWord_fits [OF assms, of "wordSeq s"]
  by (simp add: findOrCreateWord_def Let_def save_def)

lemma findOrCreateWord_result:
  assumes "findOrCreateWord data s = Inr (w, s0)"
  shows "findOne (\<lambda>x. W_word x = in_word data) (wordRepository s0) = Some w"
    and "pronunciationRepository s0 = pronunciationRepository s"
    and "definitionRepository s0 = definitionRepository s"
    and "definitionSeq s0 = definitionSeq s"
    and "wordFormRepository s0 = wordFormRepository s"
    and "synonymRepository s0 = synonymRepository s"
proof -
  have "findOne (\<lambda>x. W_word x = in_word data) (wordRepository s0) = Some w \<and>
    pronunciationRepository s0 = pronunciationRepository s \<and>
    definitionRepository s0 = definitionRepository s \<and>
    definitionSeq s0 = definitionSeq s \<and>
    wordFormRepository s0 = wordFormRepository s \<and>
    synonymRepository s0 = synonymRepository s"
  proof (cases "findOne (\<lambda>x. W_word x = in_word data) (wordRepository s)")
    case None
    then have w: "w = createWord data (wordSeq s)"
      and s0: "s0 = s\<lparr>wordRepository := wordRepository s @ [w], wordSeq := Suc (wordSeq s)\<rparr>"
      using assms by (auto simp: findOrCreateWord_def Let_def save_Inr split: sum.splits)
    have "W_word w = in_word data" by (simp add: w createWord_def)
    then have "findOne (\<lambda>x. W_word x = in_word data) (wordRepository s @ [w]) = Some w"
      using None by (simp add: findOne_append) (simp add: findOne_def)
    then show ?thesis by (simp add: s0)
  next
    case (Some existing)
    then show ?thesis using assms by (simp add: findOrCreateWord_def)
  qed
  then show "findOne (\<lambda>x. W_word x = in_word data) (wordRepository s0) = Some w"
    and "pronunciationRepository s0 = pronunciationRepository s"
    and "definitionRepository s0 = definitionRepository s"
    and "definitionSeq s0 = definitionSeq s"
    and "wordFormRepository s0 = wordFormRepository s"
    and "synonymRepository s0 = synonymRepository s"
    by simp_all
qed

lemma andThen_words:
  assumes "wordRepository (finalStore r) = W"
    and "\<And>s. wordRepository (finalStore (next s)) = wordRepository s"
  shows "wordRepository (finalStore (andThen r next)) = W"
proof (cases r)
  case (Inl thrown)
  then show ?thesis using assms(1) by (simp add: andThen_def)
next
  case (Inr s)
  then show ?thesis using assms by (simp add: andThen_def finalStore_simps)
qed

lemma findOrCreateWord_fits:
  assumes "wordFits data"
  shows "\<exists>w s0. findOrCreateWord data s = Inr (w, s0)"
proof (cases "findOne (\<lambda>w. W_word w = in_word data) (wordRepository s)")
  case None
  then show ?thesis using findOrCreateWord_creates [OF assms] by blast
next
  case (Some w)
  then show ?thesis using findOrCreateWord_again by blast
qed

lemma importWordData_run:
  assumes "findOrCreateWord data s = Inr (w, s0)"
    and "importPronunciations (W_id w) (in_pronunciations data) s0 = Inr sa"
    and "importDefinitions (W_id w) (in_definitions data) sa = Inr sb"
    and "importWordForms (W_id w) (in_word_forms data) sb = Inr sc"
    and "importSynonyms (W_id w) (in_synonyms data) sc = Inr s1"
  shows "importWordData message data s = (Inr \<lparr>success = True, res_word = in_word data\<rparr>, s1)"
  using assms by (simp add: importWordData_def andThen_def)

lemma importWordData_words:
  "wordRepository (snd (importWordData message data s)) =
     (case findOrCreateWord data s of
        Inl e \<Rightarrow> wordRepository s
      | Inr (w, s0) \<Rightarrow> wordRepository s0)"
proof (cases "findOrCreateWord data s")
  case (Inl e)
  then show ?thesis by (simp add: importWordData_def)
next
  case (Inr found)
  obtain w s0 where f: "found = (w, s0)" by (cases found)
  let ?r = "andThen (andThen (andThen
                  (importPronunciations (W_id w) (in_pronunciations data) s0)
                  (importDefinitions (W_id w) (in_definitions data)))
                  (importWordForms (W_id w) (in_word_forms data)))
                  (importSynonyms (W_id w) (in_synonyms data))"
  have "wordRepository (finalStore ?r) = wordRepository s0"
    by (intro andThen_words importPronunciations_words importDefinitions_words
        importWordForms_words importSynonyms_words)
  moreover have "snd (importWordData message data s) = finalStore ?r"
    using Inr f by (simp add: importWordData_def finalStore_def split: sum.splits prod.splits)
  ultimately show ?thesis using Inr f by simp
qed

text \<open>The example payloads imported into the empty store.\<close>

lemmas import_defs = importWordData_def findOrCreateWord_def createWord_def findOne_def
  importPronunciations_def importPronunciation_def importDefinitions_def importDefinition_def
  importExample_def createDefinition_def importWordForms_def importWordForm_def
  importSynonyms_def importSynonym_def or_default_def Let_def andThen_def save_def
  wordRefusals_def pronunciationRefusals_def definitionRefusals_def wordFormRefusals_def
  synonymRefusals_def varcharColumn_def integerColumn_def

lemma runData_fits: "fitsColumns runData"
  by (simp add: fitsColumns_def wordFits_def runData_def payloadPronunciations_def
      payloadDefinitions_def payloadWordForms_def payloadSynonyms_def or_default_def
      toLowerCase_def)

lemma run_once_words:
  "map W_partOfSpeech (wordRepository (snd (importWordData driverMessage runData emptyStore)))
     = [[''verb'', ''verb'', ''noun'']]"
  by (simp add: importWordData_words findOrCreateWord_def createWord_def findOne_def
      wordRefusals_def varcharColumn_def integerColumn_def save_def or_default_def
      toLowerCase_def runData_def emptyStore_def Let_def)

lemma run_once_prons:
  "map P_accent (pronunciationRepository (snd (importWordData driverMessage runData emptyStore)))
     = [''US'']"
  by (simp add: import_defs toLowerCase_def runData_def emptyStore_def)

lemma run_once_forms:
  "map F_formType (wordFormRepository (snd (importWordData driverMessage runData emptyStore)))
     = [''past'', ''plural'']"
  by (simp add: import_defs toLowerCase_def runData_def emptyStore_def)

lemma run_once_syns:
  "map S_synonymWord (synonymRepository (snd (importWordData driverMessage runData emptyStore)))
     = [''sprint'', ''jog'']"
  by (simp add: import_defs toLowerCase_def runData_def emptyStore_def)

lemma refused_once:
  "importWordData driverMessage longAccentData emptyStore =
     (Inl (HttpException ''Failed to import word: value too long for type character varying'' 500),
      emptyStore\<lparr>wordRepository := [createWord longAccentData 1], wordSeq := 2\<rparr>)"
  by (simp add: import_defs importFailed_def driverMessage_def toLowerCase_def
      longAccentData_def emptyStore_def)

lemma refused_twice:
  "importWordData driverMessage longAccentData
     (emptyStore\<lparr>wordRepository := [createWord longAccentData 1], wordSeq := 2\<rparr>) =
     (Inl (HttpException ''Failed to import word: value too long for type character varying'' 500),
      emptyStore\<lparr>wordRepository := [createWord longAccentData 1], wordSeq := 2\<rparr>)"
  by (simp add: import_defs importFailed_def driverMessage_def toLowerCase_def
      longAccentData_def emptyStore_def)

text \<open>
  Claim C1 fails as stated: a payload with a value that does not fit its column is refused
  by the store. With an accent of eleven characters the save of the pronunciation throws in
  both runs, the import ends with the 500, and the definitions loop after it is not
  reached, so the second run appends no definition row.
\<close>

theorem import_refused_counterexample:
  "length (payloadDefinitions longAccentData) = 1 \<and>
   fst (importWordData driverMessage longAccentData emptyStore) =
     Inl (HttpException ''Failed to import word: value too long for type character varying'' 500) \<and>
   fst (importWordData driverMessage longAccentData
          (snd (importWordData driverMessage longAccentData emptyStore))) =
     Inl (HttpException ''Failed to import word: value too long for type character varying'' 500) \<and>
   definitionRepository
     (snd (importWordData driverMessage longAccentData
             (snd (importWordData driverMessage longAccentData emptyStore)))) =
   definitionRepository (snd (importWordData driverMessage longAccentData emptyStore)) \<and>
   definitionRepository (snd (importWordData driverMessage longAccentData emptyStore)) = []"
proof -
  have n: "length (payloadDefinitions longAccentData) = 1"
    by (simp add: payloadDefinitions_def longAccentData_def)
  have e: "definitionRepository
      (emptyStore\<lparr>wordRepository := [createWord longAccentData 1], wordSeq := 2\<rparr>) = []"
    by (simp add: emptyStore_def)
  show ?thesis
    unfolding refused_once snd_conv fst_conv refused_twice using n e by simp
qed

text \<open>
  Claim C1, amended. For every payload whose values fit the declared columns and every
  store, the import succeeds, and so does a second import of the same payload, which adds no
  word, pronunciation, word form or synonym row. Each of the two runs appends one row per
  definition of the payload, with fresh primary keys and the order fields \<open>1, 2, ...\<close> of that
  run, so the definitions are stored twice.
\<close>

theorem import_twice:
  assumes "fitsColumns data"
  shows "\<exists>wordEntity s1 s2.
      importWordData message data s = (Inr \<lparr>success = True, res_word = in_word data\<rparr>, s1) \<and>
      importWordData message data s1 = (Inr \<lparr>success = True, res_word = in_word data\<rparr>, s2) \<and>
      findOne (\<lambda>w. W_word w = in_word data) (wordRepository s1) = Some wordEntity \<and>
      wordRepository s2 = wordRepository s1 \<and>
      pronunciationRepository s2 = pronunciationRepository s1 \<and>
      wordFormRepository s2 = wordFormRepository s1 \<and>
      synonymRepository s2 = synonymRepository s1 \<and>
      definitionRepository s1 =
        definitionRepository s @
        definitionBatch (definitionSeq s) (W_id wordEntity) 0 (payloadDefinitions data) \<and>
      definitionRepository s2 =
        definitionRepository s1 @
        definitionBatch (definitionSeq s1) (W_id wordEntity) 0 (payloadDefinitions data) \<and>
      (\<forall>ident. map D_definitionOrder
                 (definitionBatch ident (W_id wordEntity) 0 (payloadDefinitions data)) =
               map int [1 ..< Suc (length (payloadDefinitions data))])"
proof -
  have fits: "wordFits data"
    "list_all (\<lambda>p. length (in_accent p) \<le> 10) (payloadPronunciations data)"
    "list_all (\<lambda>d. length (in_pos d) \<le> 50 \<and>
                     length (or_default (in_level d) ''intermediate'') \<le> 20)
        (payloadDefinitions data)"
    "length (payloadDefinitions data) \<le> 2147483647"
    "list_all (\<lambda>(formType, formWord). length formType \<le> 50 \<and> length formWord \<le> 255)
        (payloadWordForms data)"
    "list_all (\<lambda>syn. length syn \<le> 255) (payloadSynonyms data)"
    using assms by (simp_all add: fitsColumns_def)
  obtain w s0 where w: "findOrCreateWord data s = Inr (w, s0)"
    using findOrCreateWord_fits [OF fits(1)] by blast
  obtain sa where sa: "importPronunciations (W_id w) (in_pronunciations data) s0 = Inr sa"
    using importPronunciations_fits [OF fits(2)] by blast
  obtain sb where sb: "importDefinitions (W_id w) (in_definitions data) sa = Inr sb"
    using importDefinitions_fits [OF fits(3,4)] by blast
  obtain sc where sc: "importWordForms (W_id w) (in_word_forms data) sb = Inr sc"
    using importWordForms_fits [OF fits(5)] by blast
  obtain s1 where s1: "importSynonyms (W_id w) (in_synonyms data) sc = Inr s1"
    using importSynonyms_fits [OF fits(6)] by blast
  obtain s2 where s2: "importDefinitions (W_id w) (in_definitions data) s1 = Inr s2"
    using importDefinitions_fits [OF fits(3,4)] by blast
  note run1 = importWordData_run [OF w sa sb sc s1, of message]
  note fa = importPronunciations_frame [OF sa] and fb = importDefinitions_frame [OF sb]
    and fc = importWordForms_frame [OF sc] and f1 = importSynonyms_frame [OF s1]
    and f2 = importDefinitions_frame [OF s2]
  have words1: "wordRepository s1 = wordRepository s0"
    using fa fb fc f1 by simp
  have found: "findOne (\<lambda>x. W_word x = in_word data) (wordRepository s1) = Some w"
    unfolding words1 by (rule findOrCreateWord_result(1) [OF w])
  then have w2: "findOrCreateWord data s1 = Inr (w, s1)"
    by (rule findOrCreateWord_again)
  have "pronunciationRepository s1 = pronunciationRepository sa"
    using fb fc f1 by simp
  then have prons: "importPronunciations (W_id w) (in_pronunciations data) s1 = Inr s1"
    by (rule importPronunciations_again [OF sa])
  have "wordFormRepository s2 = wordFormRepository sc"
    using f2 f1 by simp
  then have forms: "importWordForms (W_id w) (in_word_forms data) s2 = Inr s2"
    by (rule importWordForms_again [OF sc])
  have "synonymRepository s2 = synonymRepository s1"
    using f2 by simp
  then have syns: "importSynonyms (W_id w) (in_synonyms data) s2 = Inr s2"
    by (rule importSynonyms_again [OF s1])
  note run2 = importWordData_run [OF w2 prons s2 forms syns, of message]
  have "definitionRepository s1 = definitionRepository sb"
    using fc f1 by simp
  moreover have "definitionRepository sa = definitionRepository s" "definitionSeq sa = definitionSeq s"
    using fa findOrCreateWord_result(3,4) [OF w] by simp_all
  ultimately have defs1: "definitionRepository s1 =
      definitionRepository s @ definitionBatch (definitionSeq s) (W_id w) 0 (payloadDefinitions data)"
    using importDefinitions_rows [OF sb] by simp
  have defs2: "definitionRepository s2 =
      definitionRepository s1 @ definitionBatch (definitionSeq s1) (W_id w) 0 (payloadDefinitions data)"
    by (rule importDefinitions_rows [OF s2])
  have order: "\<forall>ident. map D_definitionOrder (definitionBatch ident (W_id w) 0 (payloadDefinitions data)) =
        map int [1 ..< Suc (length (payloadDefinitions data))]"
    by (simp add: definitionBatch_order)
  show ?thesis
    using run1 run2 found f2 defs1 defs2 order by blast
qed

text \<open>The example payload imported twice into the empty store.\<close>

theorem import_twice_witness:
  "fitsColumns runData \<and>
   fst (importWordData driverMessage runData emptyStore)
     = Inr \<lparr>success = True, res_word = ''Run''\<rparr> \<and>
   fst (importWordData driverMessage runData (snd (importWordData driverMessage runData emptyStore)))
     = Inr \<lparr>success = True, res_word = ''Run''\<rparr> \<and>
   map D_definitionOrder
     (definitionRepository
        (snd (importWordData driverMessage runData
           (snd (importWordData driverMessage runData emptyStore)))))
     = [1, 2, 3, 1, 2, 3] \<and>
   map P_accent
     (pronunciationRepository
        (snd (importWordData driverMessage runData
           (snd (importWordData driverMessage runData emptyStore)))))
     = [''US''] \<and>
   map F_formType
     (wordFormRepository
        (snd (importWordData driverMessage runData
           (snd (importWordData driverMessage runData emptyStore)))))
     = [''past'', ''plural''] \<and>
   map S_synonymWord
     (synonymRepository
        (snd (importWordData driverMessage runData
           (snd (importWordData driverMessage runData emptyStore)))))
     = [''sprint'', ''jog'']"
proof -
  have n: "length (payloadDefinitions runData) = 3" "definitionRepository emptyStore = []"
    "in_word runData = ''Run''"
    by (simp_all add: payloadDefinitions_def runData_def emptyStore_def)
  show ?thesis
    using import_twice [OF runData_fits, of driverMessage emptyStore]
      run_once_prons run_once_forms run_once_syns runData_fits
    by (auto simp: n upt_conv_Cons)
qed

text \<open>
  Claim C7 fails as stated: the part-of-speech tags of the created row are the tags of the
  payload's definitions one by one, so a tag that two definitions share is stored twice.
\<close>

theorem pos_tags_counterexample:
  "findOne (\<lambda>w. W_word w = in_word runData) (wordRepository emptyStore) = None \<and>
   wordFits runData \<and>
   map W_partOfSpeech (wordRepository (snd (importWordData driverMessage runData emptyStore)))
     = [[''verb'', ''verb'', ''noun'']] \<and>
   map W_partOfSpeech (wordRepository (snd (importWordData driverMessage runData emptyStore)))
     \<noteq> [remdups (map in_pos (payloadDefinitions runData))]"
proof -
  have 1: "findOne (\<lambda>w. W_word w = in_word runData) (wordRepository emptyStore) = None"
    by (simp add: emptyStore_def findOne_def)
  have 2: "wordFits runData"
    using runData_fits by (simp add: fitsColumns_def)
  have 3: "remdups (map in_pos (payloadDefinitions runData)) = [''verb'', ''noun'']"
    by (simp add: payloadDefinitions_def runData_def)
  show ?thesis using 1 2 run_once_words 3 by simp
qed

text \<open>
  Claim C7, amended. When no row has the literal word and the new row fits the declared
  columns, the import appends one row for it, whatever becomes of the later steps: its
  normalized key is the supplied one, or the lowercased word when none or an empty one is
  supplied, and its part-of-speech tags are the tags of the payload's definitions in order,
  duplicates kept. When a row has the literal word, the table of words is left as it was.
\<close>

theorem import_creates_or_reuses:
  "(findOne (\<lambda>w. W_word w = in_word data) (wordRepository s) = None \<and> wordFits data \<longrightarrow>
      (\<exists>created.
         wordRepository (snd (importWordData message data s)) = wordRepository s @ [created] \<and>
         W_word created = in_word data \<and>
         W_wordNormalized created =
           (case in_word_normalized data of
              None \<Rightarrow> toLowerCase (in_word data)
            | Some supplied \<Rightarrow> if supplied = [] then toLowerCase (in_word data) else supplied) \<and>
         W_partOfSpeech created = map in_pos (payloadDefinitions data))) \<and>
   (\<forall>existing. findOne (\<lambda>w. W_word w = in_word data) (wordRepository s) = Some existing \<longrightarrow>
      wordRepository (snd (importWordData message data s)) = wordRepository s)"
proof -
  have "wordRepository (snd (importWordData message data s)) = wordRepository s @ [createWord data (wordSeq s)]"
    if "findOne (\<lambda>w. W_word w = in_word data) (wordRepository s) = None" "wordFits data"
    using findOrCreateWord_creates [OF that(2,1)] by (simp add: importWordData_words)
  moreover have "wordRepository (snd (importWordData message data s)) = wordRepository s"
    if "findOne (\<lambda>w. W_word w = in_word data) (wordRepository s) = Some existing" for existing
    using findOrCreateWord_again [OF that] by (simp add: importWordData_words)
  ultimately show ?thesis
    by (auto simp: createWord_def or_default_def payloadDefinitions_def split: option.splits)
qed

text \<open>The example payload creates its row in the empty store, and reuses it the second time.\<close>

theorem import_creates_or_reuses_witness:
  "findOne (\<lambda>w. W_word w = in_word runData) (wordRepository emptyStore) = None \<and>
   wordFits runData \<and>
   (\<exists>created.
      wordRepository (snd (importWordData driverMessage runData emptyStore)) = [created] \<and>
      W_word created = ''Run'' \<and> W_wordNormalized created = ''run'' \<and>
      W_partOfSpeech created = [''verb'', ''verb'', ''noun'']) \<and>
   findOne (\<lambda>w. W_word w = in_word runData)
     (wordRepository (snd (importWordData driverMessage runData emptyStore))) \<noteq> None \<and>
   wordRepository
     (snd (importWordData driverMessage runData
             (snd (importWordData driverMessage runData emptyStore)))) =
     wordRepository (snd (importWordData driverMessage runData emptyStore))"
proof -
  let ?s1 = "snd (importWordData driverMessage runData emptyStore)"
  have 1: "findOne (\<lambda>w. W_word w = in_word runData) (wordRepository emptyStore) = None"
    by (simp add: emptyStore_def findOne_def)
  have 2: "wordFits runData"
    using runData_fits by (simp add: fitsColumns_def)
  have n: "in_word_normalized runData = None" "in_word runData = ''Run''"
    "map in_pos (payloadDefinitions runData) = [''verb'', ''verb'', ''noun'']"
    "wordRepository emptyStore = []"
    by (simp_all add: runData_def payloadDefinitions_def emptyStore_def)
  have l: "toLowerCase ''Run'' = ''run''" by code_simp
  have a: "\<exists>created.
      wordRepository ?s1 = [created] \<and>
      W_word created = ''Run'' \<and> W_wordNormalized created = ''run'' \<and>
      W_partOfSpeech created = [''verb'', ''verb'', ''noun'']"
    using import_creates_or_reuses [of runData emptyStore driverMessage] 1 2 by (simp add: n l)
  then obtain created where c: "wordRepository ?s1 = [created]" "W_word created = ''Run''"
    by blast
  then have 3: "findOne (\<lambda>w. W_word w = in_word runData) (wordRepository ?s1) = Some created"
    by (simp add: findOne_def n)
  then have b: "wordRepository (snd (importWordData driverMessage runData ?s1)) = wordRepository ?s1"
    using import_creates_or_reuses [of runData ?s1 driverMessage] by blast
  show ?thesis using 1 2 a 3 b by simp
qed

end
